theory Spec2Isabelle
  imports Main
begin

section \<open>JavaScript strings\<close>

text \<open>
  Strings are lists of code units; the model covers code units below 256, so every
  character is one \<^typ>\<open>char\<close>. The helpers below are the built-in string methods
  the analyzers call: \<open>toLowerCase\<close>, \<open>trim\<close>, \<open>startsWith\<close>, \<open>includes\<close>,
  \<open>indexOf\<close>, \<open>split('\n')\<close>, \<open>join\<close> and \<open>parseInt\<close>. Character classes are
  written as the list of their members.
\<close>

definition upperAZ :: string where
  "upperAZ = ''ABCDEFGHIJKLMNOPQRSTUVWXYZ''"

definition lowerAZ :: string where
  "lowerAZ = ''abcdefghijklmnopqrstuvwxyz''"

definition digits :: string where
  "digits = ''0123456789''"

text \<open>The capital letters of Latin-1 (all of \<open>0xC0\<close> to \<open>0xDE\<close> but \<open>0xD7\<close>) and their small forms.\<close>

definition upperLatin :: string where
  "upperLatin =
     [CHR 0xC0, CHR 0xC1, CHR 0xC2, CHR 0xC3, CHR 0xC4, CHR 0xC5, CHR 0xC6, CHR 0xC7,
      CHR 0xC8, CHR 0xC9, CHR 0xCA, CHR 0xCB, CHR 0xCC, CHR 0xCD, CHR 0xCE, CHR 0xCF,
      CHR 0xD0, CHR 0xD1, CHR 0xD2, CHR 0xD3, CHR 0xD4, CHR 0xD5, CHR 0xD6,
      CHR 0xD8, CHR 0xD9, CHR 0xDA, CHR 0xDB, CHR 0xDC, CHR 0xDD, CHR 0xDE]"

definition lowerLatin :: string where
  "lowerLatin =
     [CHR 0xE0, CHR 0xE1, CHR 0xE2, CHR 0xE3, CHR 0xE4, CHR 0xE5, CHR 0xE6, CHR 0xE7,
      CHR 0xE8, CHR 0xE9, CHR 0xEA, CHR 0xEB, CHR 0xEC, CHR 0xED, CHR 0xEE, CHR 0xEF,
      CHR 0xF0, CHR 0xF1, CHR 0xF2, CHR 0xF3, CHR 0xF4, CHR 0xF5, CHR 0xF6,
      CHR 0xF8, CHR 0xF9, CHR 0xFA, CHR 0xFB, CHR 0xFC, CHR 0xFD, CHR 0xFE]"

definition lowerChar :: "char \<Rightarrow> char" where
  "lowerChar c =
     (case map_of (zip (upperAZ @ upperLatin) (lowerAZ @ lowerLatin)) c of
        Some l \<Rightarrow> l
      | None \<Rightarrow> c)"

definition toLowerCase :: "string \<Rightarrow> string" where
  "toLowerCase s = map lowerChar s"

text \<open>
  White space and line terminators, as \<open>trim\<close> and the class \<open>\s\<close> read them: tab,
  line feed, vertical tab, form feed, carriage return, space and no-break space.
\<close>

definition whiteSpace :: string where
  "whiteSpace = [CHR 0x09, CHR 0x0A, CHR 0x0B, CHR 0x0C, CHR 0x0D, CHR 0x20, CHR 0xA0]"

definition isSpace :: "char \<Rightarrow> bool" where
  "isSpace c = (c \<in> set whiteSpace)"

definition trim :: "string \<Rightarrow> string" where
  "trim s = rev (dropWhile isSpace (rev (dropWhile isSpace s)))"

fun startsWith :: "string \<Rightarrow> string \<Rightarrow> bool" where
  "startsWith s [] = True"
| "startsWith [] (p # ps) = False"
| "startsWith (c # cs) (p # ps) = (c = p \<and> startsWith cs ps)"

fun includesStr :: "string \<Rightarrow> string \<Rightarrow> bool" where
  "includesStr [] p = startsWith [] p"
| "includesStr (c # cs) p = (startsWith (c # cs) p \<or> includesStr cs p)"

text \<open>
  \<open>s.indexOf(p, from)\<close>: the first index at or after \<open>from\<close> where \<open>p\<close> starts,
  \<open>-1\<close> when there is none. \<open>indexFrom\<close> scans the suffix that starts at index \<open>i\<close>.
\<close>

fun indexFrom :: "string \<Rightarrow> string \<Rightarrow> int \<Rightarrow> int" where
  "indexFrom [] p i = (if p = [] then i else -1)"
| "indexFrom (c # cs) p i = (if startsWith (c # cs) p then i else indexFrom cs p (i + 1))"

definition indexOf :: "string \<Rightarrow> string \<Rightarrow> nat \<Rightarrow> int" where
  "indexOf s p from = (let k = min from (length s) in indexFrom (drop k s) p (int k))"

fun splitLines :: "string \<Rightarrow> string list" where
  "splitLines [] = [[]]"
| "splitLines (c # cs) =
     (if c = CHR 0x0A then [] # splitLines cs
      else (case splitLines cs of [] \<Rightarrow> [[c]] | l # ls \<Rightarrow> (c # l) # ls))"

fun join :: "string \<Rightarrow> string list \<Rightarrow> string" where
  "join sep [] = []"
| "join sep [x] = x"
| "join sep (x # y # ys) = x @ sep @ join sep (y # ys)"

text \<open>
  \<open>parseInt(s)\<close> with no radix: leading white space, a sign, then hexadecimal digits
  after \<open>0x\<close> or decimal digits otherwise; \<open>None\<close> is \<open>NaN\<close>.
\<close>

definition digitVal :: "char \<Rightarrow> int option" where
  "digitVal c =
     map_of (zip (digits @ ''abcdef'' @ ''ABCDEF'')
       [0, 1, 2, 3, 4, 5, 6, 7, 8, 9, 10, 11, 12, 13, 14, 15, 10, 11, 12, 13, 14, 15]) c"

fun digitsVal :: "int \<Rightarrow> string \<Rightarrow> int option \<Rightarrow> int option" where
  "digitsVal radix [] acc = acc"
| "digitsVal radix (c # cs) acc =
     (case digitVal c of
        None \<Rightarrow> acc
      | Some d \<Rightarrow>
          (if d < radix
           then digitsVal radix cs (Some ((case acc of None \<Rightarrow> 0 | Some a \<Rightarrow> a) * radix + d))
           else acc))"

definition parseUnsigned :: "string \<Rightarrow> int option" where
  "parseUnsigned s =
     (if startsWith s ''0x'' \<or> startsWith s ''0X'' then digitsVal 16 (drop 2 s) None
      else digitsVal 10 s None)"

definition parseInt :: "string \<Rightarrow> int option" where
  "parseInt s =
     (case dropWhile isSpace s of
        [] \<Rightarrow> None
      | c # cs \<Rightarrow>
          (if c = CHR ''-'' then map_option uminus (parseUnsigned cs)
           else if c = CHR ''+'' then parseUnsigned cs
           else parseUnsigned (c # cs)))"

section \<open>Regular expressions\<close>

text \<open>
  The analyzers test their input with regular-expression literals. The matcher below
  is the backtracking semantics of those literals: a match state holds the text
  already matched (\<open>seen\<close>, reversed), the text still ahead (\<open>rest\<close>) and the
  captured groups, and \<open>run\<close> lists the states a pattern can end in, in the order
  backtracking tries them, so the head of the list is the match the engine reports.

  A pattern is the literal after its flags are applied: under \<open>i\<close> a letter is the
  class of its two cases (\<open>ci\<close>, \<open>strI\<close>), a dot is \<open>NotChr\<close> of the line terminators,
  or of nothing under \<open>s\<close>, and a range is the list of its members.
\<close>

datatype regex =
    Chr "char list"
  | NotChr "char list"
  | Bol
  | Eol
  | WordB
  | Eps
  | Seq regex regex
  | Alt regex regex
  | Star bool regex
  | Grp nat regex

record mstate =
  seen :: string
  rest :: string
  caps :: "(nat \<times> string) list"

definition isWordChar :: "char \<Rightarrow> bool" where
  "isWordChar c = (c \<in> set (lowerAZ @ upperAZ @ digits @ ''_''))"

definition step :: "(char \<Rightarrow> bool) \<Rightarrow> mstate \<Rightarrow> mstate list" where
  "step ok st =
     (case rest st of
        [] \<Rightarrow> []
      | c # cs \<Rightarrow> (if ok c then [st\<lparr>seen := c # seen st, rest := cs\<rparr>] else []))"

definition atWordBoundary :: "mstate \<Rightarrow> bool" where
  "atWordBoundary st =
     ((case seen st of [] \<Rightarrow> False | b # _ \<Rightarrow> isWordChar b)
      \<noteq> (case rest st of [] \<Rightarrow> False | a # _ \<Rightarrow> isWordChar a))"

text \<open>
  A quantified pattern repeats while an iteration consumes input (an iteration that
  matches the empty string is rejected, as the engine does); greedy tries one more
  iteration first, lazy tries to stop first. The counter bounds the iterations by the
  length of the remaining text, which no run can exceed.
\<close>

fun star :: "bool \<Rightarrow> (mstate \<Rightarrow> mstate list) \<Rightarrow> nat \<Rightarrow> mstate \<Rightarrow> mstate list" where
  "star greedy f 0 st = [st]"
| "star greedy f (Suc n) st =
     (let more = concat (map (star greedy f n)
                   (filter (\<lambda>st'. length (rest st') < length (rest st)) (f st)))
      in if greedy then more @ [st] else st # more)"

definition capture :: "nat \<Rightarrow> mstate \<Rightarrow> mstate \<Rightarrow> mstate" where
  "capture k st st' =
     st'\<lparr>caps := (k, take (length (rest st) - length (rest st')) (rest st)) # caps st'\<rparr>"

primrec run :: "regex \<Rightarrow> mstate \<Rightarrow> mstate list" where
  "run (Chr cs) = step (\<lambda>c. c \<in> set cs)"
| "run (NotChr cs) = step (\<lambda>c. c \<notin> set cs)"
| "run Bol = (\<lambda>st. if seen st = [] then [st] else [])"
| "run Eol = (\<lambda>st. if rest st = [] then [st] else [])"
| "run WordB = (\<lambda>st. if atWordBoundary st then [st] else [])"
| "run Eps = (\<lambda>st. [st])"
| "run (Seq a b) = (\<lambda>st. concat (map (run b) (run a st)))"
| "run (Alt a b) = (\<lambda>st. run a st @ run b st)"
| "run (Star greedy r) = (\<lambda>st. star greedy (run r) (length (rest st)) st)"
| "run (Grp k r) = (\<lambda>st. map (capture k st) (run r st))"

text \<open>
  \<open>search\<close> is \<open>exec\<close> on the text \<open>rev b @ s\<close> from index \<open>length b\<close>: the
  first position at or after it where the pattern matches, with the state at the start
  and at the end of the match.
\<close>

fun search :: "regex \<Rightarrow> string \<Rightarrow> string \<Rightarrow> (mstate \<times> mstate) option" where
  "search r b [] =
     (case run r \<lparr>seen = b, rest = [], caps = []\<rparr> of
        e # _ \<Rightarrow> Some (\<lparr>seen = b, rest = [], caps = []\<rparr>, e)
      | [] \<Rightarrow> None)"
| "search r b (c # cs) =
     (case run r \<lparr>seen = b, rest = c # cs, caps = []\<rparr> of
        e # _ \<Rightarrow> Some (\<lparr>seen = b, rest = c # cs, caps = []\<rparr>, e)
      | [] \<Rightarrow> search r (c # b) cs)"

definition test :: "regex \<Rightarrow> string \<Rightarrow> bool" where
  "test r s = (search r [] s \<noteq> None)"

text \<open>Pattern shorthands.\<close>

definition lit :: "char \<Rightarrow> regex" where
  "lit c = Chr [c]"

definition ci :: "char \<Rightarrow> regex" where
  "ci c =
     (case map_of (zip (lowerAZ @ upperAZ) (upperAZ @ lowerAZ)) c of
        Some d \<Rightarrow> Chr [c, d]
      | None \<Rightarrow> Chr [c])"

fun cat :: "regex list \<Rightarrow> regex" where
  "cat [] = Eps"
| "cat [r] = r"
| "cat (r # q # rs) = Seq r (cat (q # rs))"

definition str :: "string \<Rightarrow> regex" where
  "str s = cat (map lit s)"

definition strI :: "string \<Rightarrow> regex" where
  "strI s = cat (map ci s)"

definition Plus :: "regex \<Rightarrow> regex" where
  "Plus r = Seq r (Star True r)"

definition Opt :: "regex \<Rightarrow> regex" where
  "Opt r = Alt r Eps"

definition AtLeast3 :: "regex \<Rightarrow> regex" where
  "AtLeast3 r = Seq r (Seq r (Seq r (Star True r)))"

definition space :: regex where
  "space = Chr whiteSpace"

definition quote :: regex where
  "quote = Chr [CHR 0x22, CHR 0x27]"

definition dot :: regex where
  "dot = NotChr [CHR 0x0A, CHR 0x0D]"

definition anyChar :: regex where
  "anyChar = NotChr []"

section \<open>The markup evaluator (html-analyzer.js)\<close>

subsection \<open>Violations and the parsed document\<close>

text \<open>
  A violation as the evaluators push it. \<open>wcag\<close> and \<open>vfix\<close> (the source's \<open>fix\<close>)
  are table lookups, \<open>None\<close> where the table has no such key.
\<close>

record violation =
  ruleId :: string
  severity :: string
  line :: int
  column :: int
  message :: string
  wcag :: "string list option"
  vfix :: "string list option"

text \<open>The exceptions the code can raise: a \<open>TypeError\<close>, and what an external evaluator throws.\<close>

datatype exn = TypeError string | Thrown string

text \<open>
  The tree the markup parser hands to the handler's callback: elements of type \<open>tag\<close>,
  \<open>script\<close> or \<open>style\<close> with a name, attributes and children, text, comments,
  directives and CDATA sections. The attributes are the parser's \<open>attribs\<close> object, as
  the list of its own properties.
\<close>

datatype elemType = TagT | ScriptT | StyleT

datatype node =
    Element elemType string "(string \<times> string) list" "node list"
  | Text string
  | Comment string
  | Directive string string
  | CData "node list"

definition attr :: "(string \<times> string) list \<Rightarrow> string \<Rightarrow> string option" where
  "attr attrs k = map_of attrs k"

text \<open>A property read in a condition: \<open>undefined\<close> and the empty string are false.\<close>

definition truthy :: "string option \<Rightarrow> bool" where
  "truthy v = (case v of None \<Rightarrow> False | Some s \<Rightarrow> s \<noteq> [])"

subsection \<open>The rule tables\<close>

definition violationToWCAG :: "(string \<times> string list) list" where
  \<open>violationToWCAG =
     [(''img-missing-alt'', [''1.1.1'']),
      (''img-empty-alt-not-decorative'', [''1.1.1'']),
      (''img-redundant-alt'', [''1.1.1'']),
      (''form-input-missing-label'', [''3.3.2'', ''4.1.2'']),
      (''button-empty'', [''4.1.2'']),
      (''link-empty'', [''2.4.4'']),
      (''link-non-descriptive'', [''2.4.4'']),
      (''link-new-window-no-warning'', [''3.2.5'']),
      (''iframe-missing-title'', [''4.1.2'']),
      (''div-as-button'', [''4.1.2'']),
      (''click-without-keyboard'', [''2.1.1'']),
      (''positive-tabindex'', [''2.4.3'']),
      (''missing-lang'', [''3.1.1'']),
      (''missing-lang-foreign'', [''3.1.2'']),
      (''heading-empty'', [''2.4.6'']),
      (''heading-hierarchy'', [''2.4.6'']),
      (''table-missing-headers'', [''1.3.1'']),
      (''autoplay-media'', [''1.4.2'', ''2.2.2'']),
      (''media-no-captions'', [''1.2.2'', ''1.2.3'']),
      (''redundant-role'', [''4.1.2'']),
      (''invalid-aria-role'', [''4.1.2'']),
      (''missing-aria-required'', [''4.1.2'']),
      (''focus-outline-removed'', [''2.4.7'']),
      (''title-empty'', [''2.4.2'']),
      (''duplicate-id'', [''4.1.1'']),
      (''marquee-element'', [''2.2.2'']),
      (''missing-main-landmark'', [''1.3.1'']),
      (''placeholder-as-label'', [''3.3.2'']),
      (''missing-autocomplete'', [''1.3.5'']),
      (''non-semantic-navigation'', [''1.3.1'']),
      (''radio-missing-fieldset'', [''1.3.1'', ''3.3.2'']),
      (''required-not-indicated'', [''3.3.2''])]\<close>

definition fixSuggestions :: "(string \<times> string list) list" where
  \<open>fixSuggestions =
     [(''img-missing-alt'',
        [''Add alt attribute: <img src="logo.png" alt="Company logo">'',
         ''For decorative images: <img src="decoration.png" alt="">'',
         ''Describe the image content, not just "image of..."'']),
      (''img-empty-alt-not-decorative'',
        [''If image is informative, add meaningful alt text'',
         ''If image is decorative, use alt="" and role="presentation"'']),
      (''img-redundant-alt'',
        [''Remove words like "image", "picture", "photo" from alt text'',
         ''Focus on describing the content/purpose'']),
      (''form-input-missing-label'',
        [''<label for="username">Username</label><input id="username" type="text">'',
         ''Or use aria-label: <input type="text" aria-label="Username">'',
         ''Or aria-labelledby: <span id="label">Username</span><input aria-labelledby="label">'']),
      (''button-empty'',
        [''Add text content: <button>Click me</button>'',
         ''Or aria-label: <button aria-label="Close dialog">'' @ [CHR 0xD7] @ ''</button>'']),
      (''link-empty'',
        [''Add link text: <a href="/page">Read more</a>'',
         ''Or aria-label: <a href="/page" aria-label="Read more about accessibility">'' @ [CHR 0xE2] @ [CHR 0x86] @ [CHR 0x92] @ ''</a>'']),
      (''iframe-missing-title'',
        [''Add title attribute: <iframe src="..." title="Embedded video player"></iframe>'',
         ''Title should describe the iframe content'']),
      (''div-as-button'',
        [''Use <button> element: <button onclick="handler()">Click me</button>'',
         ''Or add proper ARIA: <div role="button" tabindex="0" onkeydown="keyHandler()">'']),
      (''click-without-keyboard'',
        [''Add keyboard support: <div onclick="handler()" onkeydown="keyHandler()" tabindex="0">'',
         ''Or use semantic element: <button onclick="handler()">'']),
      (''positive-tabindex'',
        [''Remove positive tabindex values'',
         ''Use tabindex="0" for custom interactive elements'',
         ''Let natural tab order work for native elements'']),
      (''missing-lang'',
        [''Add lang attribute to <html>: <html lang="en">'',
         ''Use appropriate language code'']),
      (''heading-empty'',
        [''Add text content: <h1>Page Title</h1>'',
         ''Or aria-label: <h1 aria-label="Section title"><span class="icon"></span></h1>'']),
      (''table-missing-headers'',
        [''Use <thead> and <th>: <thead><tr><th>Name</th><th>Age</th></tr></thead>'',
         ''Add scope: <th scope="col">Name</th>'']),
      (''autoplay-media'',
        [''Remove autoplay: <video src="..." controls></video>'',
         ''Or add muted for background: <video autoplay muted loop></video>'']),
      (''redundant-role'',
        [''Remove redundant role that matches implicit semantics'',
         ''Example: <button role="button"> should be just <button>'']),
      (''invalid-aria-role'',
        [''Use valid ARIA role from specification'',
         ''Check: https://www.w3.org/TR/wai-aria/#role_definitions'']),
      (''missing-aria-required'',
        [''Add required ARIA properties for this role'',
         ''Example: role="checkbox" requires aria-checked'']),
      (''focus-outline-removed'',
        [''Do not remove focus outlines globally'',
         ''Provide custom visible focus styles if removing default'']),
      (''title-empty'',
        [''Add descriptive title: <title>Page Name - Site Name</title>'',
         ''Title should describe the page content'']),
      (''duplicate-id'',
        [''Ensure all id attributes are unique'',
         ''Duplicate IDs break ARIA relationships and form labels'']),
      (''marquee-element'',
        [''Do not use <marquee> or <blink> elements'',
         ''Use CSS animations with prefers-reduced-motion support'']),
      (''media-no-captions'',
        [''Add <track> element for captions: <video><track kind="captions" src="captions.vtt"></video>'',
         ''Or provide transcript link below media'']),
      (''link-new-window-no-warning'',
        [''Add warning text: <a href="..." target="_blank">Link (opens in new window)</a>'',
         ''Or use aria-label: <a href="..." target="_blank" aria-label="Link, opens in new window">'']),
      (''missing-main-landmark'',
        [''Add <main> element to wrap primary content'',
         ''There should be exactly one <main> per page'']),
      (''placeholder-as-label'',
        [''Add proper label: <label for="name">Name</label><input id="name" placeholder="e.g. John">'',
         ''Placeholders disappear on focus and are not read by all screen readers'']),
      (''missing-autocomplete'',
        [''Add autocomplete: <input type="text" name="name" autocomplete="name">'',
         ''For email: autocomplete="email", for credit card: autocomplete="cc-number"'']),
      (''non-semantic-navigation'',
        [''Use <nav> element: <nav><a href="home.html">Home</a></nav>'',
         ''Semantic elements improve accessibility'']),
      (''radio-missing-fieldset'',
        [''<fieldset><legend>Choose option</legend><input type="radio">...</fieldset>'',
         ''Group related radio buttons with fieldset and legend'']),
      (''required-not-indicated'',
        [''Add visual indicator: <label>Email <span aria-hidden="true">*</span><span class="sr-only">required</span></label>'',
         ''Or use aria-required: <input type="email" aria-required="true">'']),
      (''link-non-descriptive'',
        [''Use descriptive text instead of "click here" or "read more"'',
         ''Example: "Read our accessibility guide" instead of "Click here"'']),
      (''missing-lang-foreign'',
        [''Add lang attribute to foreign language text: <p lang="fr">Bonjour</p>'',
         ''Screen readers use lang to pronounce text correctly'']),
      (''heading-hierarchy'',
        [''Follow heading hierarchy: h1 -> h2 -> h3 (do not skip levels)'',
         ''Headings should not jump from h1 to h3''])]\<close>

definition validAriaRoles :: "string list" where
  "validAriaRoles =
     [''alert'', ''alertdialog'', ''application'', ''article'', ''banner'', ''button'',
      ''cell'', ''checkbox'', ''columnheader'', ''combobox'', ''complementary'', ''contentinfo'',
      ''definition'', ''dialog'', ''directory'', ''document'', ''feed'', ''figure'',
      ''form'', ''grid'', ''gridcell'', ''group'', ''heading'', ''img'',
      ''link'', ''list'', ''listbox'', ''listitem'', ''log'', ''main'',
      ''marquee'', ''math'', ''menu'', ''menubar'', ''menuitem'', ''menuitemcheckbox'',
      ''menuitemradio'', ''navigation'', ''none'', ''note'', ''option'', ''presentation'',
      ''progressbar'', ''radio'', ''radiogroup'', ''region'', ''row'', ''rowgroup'',
      ''rowheader'', ''scrollbar'', ''search'', ''searchbox'', ''separator'', ''slider'',
      ''spinbutton'', ''status'', ''switch'', ''tab'', ''table'', ''tablist'',
      ''tabpanel'', ''term'', ''textbox'', ''timer'', ''toolbar'', ''tooltip'',
      ''tree'', ''treegrid'', ''treeitem'']"

definition roleRequiredAria :: "(string \<times> string list) list" where
  \<open>roleRequiredAria =
     [(''checkbox'', [''aria-checked'']),
      (''combobox'', [''aria-expanded'', ''aria-controls'']),
      (''radio'', [''aria-checked'']),
      (''scrollbar'',
        [''aria-controls'',
         ''aria-valuenow'',
         ''aria-valuemin'',
         ''aria-valuemax'']),
      (''slider'', [''aria-valuenow'', ''aria-valuemin'', ''aria-valuemax'']),
      (''spinbutton'', [''aria-valuenow'']),
      (''switch'', [''aria-checked'']),
      (''tab'', [''aria-selected'']),
      (''progressbar'', [''aria-valuenow''])]\<close>

definition implicitRoles :: "(string \<times> string) list" where
  \<open>implicitRoles =
     [(''button'',
        ''button''),
      (''a'',
        ''link''),
      (''nav'',
        ''navigation''),
      (''main'',
        ''main''),
      (''header'',
        ''banner''),
      (''footer'',
        ''contentinfo''),
      (''aside'',
        ''complementary''),
      (''section'',
        ''region''),
      (''article'',
        ''article''),
      (''form'',
        ''form''),
      (''table'',
        ''table''),
      (''ul'',
        ''list''),
      (''ol'',
        ''list''),
      (''li'',
        ''listitem''),
      (''h1'',
        ''heading''),
      (''h2'',
        ''heading''),
      (''h3'',
        ''heading''),
      (''h4'',
        ''heading''),
      (''h5'',
        ''heading''),
      (''h6'',
        ''heading''),
      (''img'',
        ''img''),
      (''input[type="checkbox"]'',
        ''checkbox''),
      (''input[type="radio"]'',
        ''radio''),
      (''select'',
        ''combobox''),
      (''textarea'',
        ''textbox'')]\<close>


text \<open>
  \<open>roleRequiredAria[role]\<close> and \<open>implicitRoles[tagName]\<close> index an object literal with
  a string from the document. Besides its own keys the object answers for what it
  inherits from \<open>Object.prototype\<close>: a function, or the prototype itself for
  \<open>__proto__\<close>.
\<close>

definition objectPrototypeKeys :: "string list" where
  "objectPrototypeKeys =
     [''constructor'', ''__defineGetter__'', ''__defineSetter__'', ''hasOwnProperty'',
      ''__lookupGetter__'', ''__lookupSetter__'', ''isPrototypeOf'',
      ''propertyIsEnumerable'', ''toString'', ''valueOf'', ''__proto__'',
      ''toLocaleString'']"

datatype 'a property = Own 'a | Inherited | Undefined

definition getProp :: "(string \<times> 'a) list \<Rightarrow> string \<Rightarrow> 'a property" where
  "getProp table k =
     (case map_of table k of
        Some v \<Rightarrow> Own v
      | None \<Rightarrow> (if k \<in> set objectPrototypeKeys then Inherited else Undefined))"

definition mk :: "string \<Rightarrow> string \<Rightarrow> int \<Rightarrow> string \<Rightarrow> violation" where
  "mk rule sev ln msg =
     \<lparr>ruleId = rule, severity = sev, line = ln, column = 1, message = msg,
      wcag = map_of violationToWCAG rule, vfix = map_of fixSuggestions rule\<rparr>"

subsection \<open>Line numbers\<close>

fun lineLoop :: "string list \<Rightarrow> int \<Rightarrow> int \<Rightarrow> int \<Rightarrow> int option" where
  "lineLoop [] currentIndex i index = None"
| "lineLoop (l # ls) currentIndex i index =
     (if currentIndex + int (length l) + 1 \<ge> index then Some (i + 1)
      else lineLoop ls (currentIndex + int (length l) + 1) (i + 1) index)"

definition getLineNumber :: "string list \<Rightarrow> int \<Rightarrow> int" where
  "getLineNumber lines index =
     (case lineLoop lines 0 0 index of Some n \<Rightarrow> n | None \<Rightarrow> int (length lines))"

text \<open>
  The traversal keeps one variable \<open>lineNumber\<close>: at each tag it looks for the next
  \<open><name\<close> from the end of the line before the current one and, when there is one,
  moves to its line.
\<close>

definition nextLine :: "string \<Rightarrow> string list \<Rightarrow> string \<Rightarrow> int \<Rightarrow> int" where
  "nextLine content lines tagName lineNumber =
     (let index = indexOf content (CHR ''<'' # tagName)
                    (if lineNumber > 1
                     then length (join [CHR 0x0A] (take (nat (lineNumber - 1)) lines))
                     else 0)
      in if index \<noteq> -1 then getLineNumber lines index else lineNumber)"

subsection \<open>The patterns\<close>

definition htmlLangPattern :: regex where
  "htmlLangPattern = cat [strI ''<html'', Star True (NotChr ''>''), space, strI ''lang='']"

definition titlePattern :: regex where
  "titlePattern =
     cat [strI ''<title'', Star True (NotChr ''>''), lit CHR ''>'',
          Grp 1 (Star False anyChar), strI ''</title>'']"

definition mainPattern :: regex where
  "mainPattern = cat [strI ''<main'', Chr (whiteSpace @ ''>'')]"

definition roleMainPattern :: regex where
  "roleMainPattern = cat [strI ''role='', quote, strI ''main'', quote]"

definition marqueeRegex :: regex where
  "marqueeRegex =
     cat [lit CHR ''<'', Grp 1 (Alt (strI ''marquee'') (strI ''blink'')),
          Chr (whiteSpace @ ''>'')]"

definition redundantWords :: regex where
  "redundantWords =
     cat [WordB,
          Grp 1 (Alt (strI ''image'') (Alt (strI ''picture'')
                   (Alt (strI ''photo'') (strI ''graphic'')))),
          Plus space,
          Grp 2 (Alt (strI ''of'') (strI ''depicting'')),
          WordB]"

definition headingPattern :: regex where
  "headingPattern = cat [Bol, lit CHR ''h'', Chr ''123456'', Eol]"

text \<open>
  The fieldset test is written as a regular-expression literal, so its \<open>${name}\<close> is
  not a substitution: it is the end-of-input assertion \<open>$\<close> followed by the six
  characters \<open>{name}\<close>.
\<close>

definition fieldsetPattern :: regex where
  "fieldsetPattern =
     cat [strI ''<fieldset'', Star True (NotChr ''>''), lit CHR ''>'',
          Star False anyChar,
          strI ''<input'', Star True (NotChr ''>''),
          strI ''type='', Opt quote, strI ''radio'', Opt quote,
          Star True (NotChr ''>''),
          strI ''name='', Opt quote, Eol, strI ''{name}'', Opt quote]"

definition navPattern :: regex where
  "navPattern =
     cat [strI ''<div'', Star True (NotChr ''>''), lit CHR ''>'', Star True space,
          AtLeast3 (Grp 1
            (cat [strI ''<a'', Plus (NotChr ''>''), strI ''href'', Star True (NotChr ''>''),
                  lit CHR ''>'', Star True (NotChr ''<''), strI ''</a>'', Star True space]))]"

definition navElementPattern :: regex where
  "navElementPattern = strI ''<nav''"

definition outlineNoneRegex :: regex where
  "outlineNoneRegex =
     cat [strI ''style='', quote, Star True (NotChr [CHR 0x22, CHR 0x27]),
          strI ''outline:'', Star True space, strI ''none'']"

text \<open>
  A loop \<open>while ((m = re.exec(content)) !== null)\<close> over a global pattern: each
  search starts where the last match ended. Both patterns run this way begin with a
  literal character, so a match is never empty and the test below never fails
  (lemma \<open>execAll_consuming\<close>); on an empty match the source would not return.
\<close>

function execAll :: "regex \<Rightarrow> string \<Rightarrow> string \<Rightarrow> (mstate \<times> mstate) list" where
  "execAll r b s =
     (case search r b s of
        None \<Rightarrow> []
      | Some (st, e) \<Rightarrow>
          (if length (rest e) < length s then (st, e) # execAll r (seen e) (rest e)
           else [(st, e)]))"
  by pat_completeness auto
termination
  by (relation "measure (\<lambda>(r, b, s). length s)") auto

declare execAll.simps [simp del]

definition matchIndex :: "mstate \<times> mstate \<Rightarrow> int" where
  "matchIndex m = int (length (seen (fst m)))"

definition matchText :: "mstate \<times> mstate \<Rightarrow> string" where
  "matchText m = take (length (rest (fst m)) - length (rest (snd m))) (rest (fst m))"

definition group :: "mstate \<times> mstate \<Rightarrow> nat \<Rightarrow> string" where
  "group m k = (case map_of (caps (snd m)) k of Some g \<Rightarrow> g | None \<Rightarrow> [])"

subsection \<open>Checks on the raw text, before the tree is walked\<close>

definition titleEmpty :: "string \<Rightarrow> bool" where
  "titleEmpty content =
     (case search titlePattern [] content of
        None \<Rightarrow> True
      | Some m \<Rightarrow> trim (group m 1) = [])"

definition marqueeViolations :: "string \<Rightarrow> string list \<Rightarrow> violation list" where
  "marqueeViolations content lines =
     map (\<lambda>m. mk ''marquee-element'' ''error'' (getLineNumber lines (matchIndex m))
                (''<'' @ group m 1 @ ''> element is deprecated and causes accessibility issues''))
       (execAll marqueeRegex [] content)"

definition documentChecks :: "string \<Rightarrow> string list \<Rightarrow> violation list" where
  "documentChecks content lines =
     (if \<not> test htmlLangPattern content
      then [mk ''missing-lang'' ''error'' 1 ''The <html> element must have a lang attribute'']
      else [])
     @ (if titleEmpty content
        then [mk ''title-empty'' ''error'' (getLineNumber lines (indexOf content ''<title'' 0))
                ''Page must have a non-empty <title> element'']
        else [])
     @ (if \<not> test mainPattern content \<and> \<not> test roleMainPattern content
        then [mk ''missing-main-landmark'' ''error'' 1
                ''Page should have a <main> landmark element'']
        else [])
     @ marqueeViolations content lines"

subsection \<open>Checks on one tag\<close>

definition isTag :: "node \<Rightarrow> bool" where
  "isTag n = (case n of Element TagT _ _ _ \<Rightarrow> True | _ \<Rightarrow> False)"

definition isTextWithContent :: "node \<Rightarrow> bool" where
  "isTextWithContent n = (case n of Text d \<Rightarrow> trim d \<noteq> [] | _ \<Rightarrow> False)"

definition hasAriaLabel :: "(string \<times> string) list \<Rightarrow> bool" where
  "hasAriaLabel attrs = (truthy (attr attrs ''aria-label'') \<or> truthy (attr attrs ''aria-labelledby''))"

definition checkImage :: "int \<Rightarrow> string \<Rightarrow> (string \<times> string) list \<Rightarrow> violation list" where
  \<open>checkImage ln tagName attrs =
     (if tagName = ''img'' then
        (case attr attrs ''alt'' of
           None \<Rightarrow> [mk ''img-missing-alt'' ''error'' ln ''Image elements must have an alt attribute'']
         | Some alt \<Rightarrow>
             (if alt \<noteq> [] \<and> test redundantWords alt
              then [mk ''img-redundant-alt'' ''warning'' ln
                      ''Alt text should not include redundant words like "image of" or "picture of"'']
              else []))
      else [])\<close>

definition personalFields :: "string list" where
  "personalFields = [''email'', ''name'', ''tel'', ''url'', ''text'']"

definition personalNames :: "string list" where
  "personalNames =
     [''email'', ''name'', ''fullname'', ''username'', ''tel'', ''phone'', ''card'',
      ''cardnumber'', ''cc-'', ''address'', ''postal'', ''country'']"

definition isPersonal :: "(string \<times> string) list \<Rightarrow> bool" where
  "isPersonal attrs =
     ((case attr attrs ''type'' of None \<Rightarrow> False | Some t \<Rightarrow> t \<in> set personalFields)
      \<or> (case attr attrs ''name'' of
            None \<Rightarrow> False
          | Some n \<Rightarrow> list_ex (\<lambda>field. includesStr (toLowerCase n) field) personalNames))"

text \<open>\<open>hasLabel\<close> of an input: a non-empty \<open>aria-label\<close>, \<open>aria-labelledby\<close> or \<open>id\<close>.\<close>

definition inputHasLabel :: "(string \<times> string) list \<Rightarrow> bool" where
  "inputHasLabel attrs =
     (truthy (attr attrs ''aria-label'') \<or> truthy (attr attrs ''aria-labelledby'')
      \<or> truthy (attr attrs ''id''))"

definition isCheckedInput :: "string \<Rightarrow> (string \<times> string) list \<Rightarrow> bool" where
  "isCheckedInput tagName attrs =
     (tagName = ''input'' \<and> attr attrs ''type'' \<noteq> Some ''hidden''
      \<and> attr attrs ''type'' \<noteq> Some ''submit'' \<and> attr attrs ''type'' \<noteq> Some ''button'')"

definition checkInput :: "int \<Rightarrow> string \<Rightarrow> (string \<times> string) list \<Rightarrow> violation list" where
  "checkInput ln tagName attrs =
     (if isCheckedInput tagName attrs then
        (if inputHasLabel attrs then []
         else [mk ''form-input-missing-label'' ''error'' ln
                 ''Form input must have an associated label''])
        @ (if truthy (attr attrs ''placeholder'') \<and> \<not> inputHasLabel attrs
           then [mk ''placeholder-as-label'' ''error'' ln
                   ''Placeholder should not be used as a label replacement'']
           else [])
        @ (if isPersonal attrs \<and> \<not> truthy (attr attrs ''autocomplete'')
           then [mk ''missing-autocomplete'' ''warning'' ln
                   ''Personal info input should have autocomplete attribute'']
           else [])
        @ (if attr attrs ''required'' \<noteq> None \<and> \<not> truthy (attr attrs ''aria-required'')
           then [mk ''required-not-indicated'' ''warning'' ln
                   ''Required fields should have aria-required and visual indication'']
           else [])
      else [])"

definition checkButton ::
  "int \<Rightarrow> string \<Rightarrow> (string \<times> string) list \<Rightarrow> node list \<Rightarrow> violation list" where
  "checkButton ln tagName attrs children =
     (if tagName = ''button''
         \<and> \<not> list_ex (\<lambda>child. isTextWithContent child \<or> isTag child) children
         \<and> \<not> hasAriaLabel attrs
      then [mk ''button-empty'' ''error'' ln ''Button must have text content or aria-label'']
      else [])"

definition linkChildHasContent :: "node \<Rightarrow> bool" where
  "linkChildHasContent child =
     (isTextWithContent child
      \<or> (case child of
            Element TagT name attrs _ \<Rightarrow> name = ''img'' \<and> truthy (attr attrs ''alt'')
          | _ \<Rightarrow> False))"

definition textData :: "node list \<Rightarrow> string list" where
  "textData children = concat (map (\<lambda>child. case child of Text d \<Rightarrow> [trim d] | _ \<Rightarrow> []) children)"

definition nonDescriptive :: "string list" where
  "nonDescriptive = [''click here'', ''read more'', ''more'', ''here'', ''link'']"

definition hasNewWindowWarning :: "(string \<times> string) list \<Rightarrow> bool" where
  "hasNewWindowWarning attrs =
     (case attr attrs ''aria-label'' of
        None \<Rightarrow> False
      | Some l \<Rightarrow> includesStr l ''new window'' \<or> includesStr l ''new tab'')"

definition checkLink ::
  "int \<Rightarrow> string \<Rightarrow> (string \<times> string) list \<Rightarrow> node list \<Rightarrow> violation list" where
  \<open>checkLink ln tagName attrs children =
     (if tagName = ''a'' then
        (let hasContent = list_ex linkChildHasContent children;
             textContent = toLowerCase (join '' '' (textData children))
         in (if \<not> hasContent \<and> \<not> hasAriaLabel attrs
             then [mk ''link-empty'' ''error'' ln ''Link must have text content or aria-label'']
             else [])
            @ (if hasContent \<and> textContent \<in> set nonDescriptive
               then [mk ''link-non-descriptive'' ''warning'' ln
                       (''Non-descriptive link text: "'' @ textContent @ ''"'')]
               else [])
            @ (if attr attrs ''target'' = Some ''_blank'' \<and> \<not> hasNewWindowWarning attrs
               then [mk ''link-new-window-no-warning'' ''warning'' ln
                       ''Links opening in new windows should warn users'']
               else []))
      else [])\<close>

definition checkIframe :: "int \<Rightarrow> string \<Rightarrow> (string \<times> string) list \<Rightarrow> violation list" where
  "checkIframe ln tagName attrs =
     (if tagName = ''iframe'' \<and> \<not> truthy (attr attrs ''title'')
      then [mk ''iframe-missing-title'' ''error'' ln ''Iframe elements must have a title attribute'']
      else [])"

definition checkDivButton :: "int \<Rightarrow> string \<Rightarrow> (string \<times> string) list \<Rightarrow> violation list" where
  \<open>checkDivButton ln tagName attrs =
     (if (tagName = ''div'' \<or> tagName = ''span'') \<and> truthy (attr attrs ''onclick'') then
        (let hasRole = (attr attrs ''role'' = Some ''button'');
             hasTabindex = (attr attrs ''tabindex'' \<noteq> None);
             hasKeyboard = (truthy (attr attrs ''onkeydown'') \<or> truthy (attr attrs ''onkeypress'')
                            \<or> truthy (attr attrs ''onkeyup''))
         in if hasRole \<and> hasTabindex \<and> hasKeyboard then []
            else [mk ''div-as-button'' ''error'' ln
                    ''Interactive div/span must have role="button", tabindex, and keyboard handlers''])
      else [])\<close>

definition checkTabindex :: "int \<Rightarrow> (string \<times> string) list \<Rightarrow> violation list" where
  "checkTabindex ln attrs =
     (case attr attrs ''tabindex'' of
        None \<Rightarrow> []
      | Some t \<Rightarrow>
          (if t \<noteq> [] \<and> (case parseInt t of None \<Rightarrow> False | Some n \<Rightarrow> n > 0)
           then [mk ''positive-tabindex'' ''error'' ln
                   ''Avoid positive tabindex values as they disrupt natural tab order'']
           else []))"

definition checkHeading ::
  "int \<Rightarrow> string \<Rightarrow> (string \<times> string) list \<Rightarrow> node list \<Rightarrow> violation list" where
  "checkHeading ln tagName attrs children =
     (if test headingPattern tagName
         \<and> \<not> list_ex (\<lambda>child. isTextWithContent child \<or> isTag child) children
         \<and> \<not> hasAriaLabel attrs
      then [mk ''heading-empty'' ''error'' ln ''Heading must have text content or aria-label'']
      else [])"

fun hasHeaderElements :: "node list \<Rightarrow> bool" where
  "hasHeaderElements [] = False"
| "hasHeaderElements (Element TagT name attrs children # ns) =
     (if name = ''thead'' \<or> name = ''th'' then True
      else if hasHeaderElements children then True
      else hasHeaderElements ns)"
| "hasHeaderElements (_ # ns) = hasHeaderElements ns"

definition checkTable :: "int \<Rightarrow> string \<Rightarrow> node list \<Rightarrow> violation list" where
  "checkTable ln tagName children =
     (if tagName = ''table'' \<and> \<not> hasHeaderElements children
      then [mk ''table-missing-headers'' ''error'' ln ''Table must have <thead> and <th> elements'']
      else [])"

definition isCaptionTrack :: "node \<Rightarrow> bool" where
  "isCaptionTrack child =
     (case child of
        Element TagT name attrs _ \<Rightarrow>
          name = ''track''
          \<and> (attr attrs ''kind'' = Some ''captions'' \<or> attr attrs ''kind'' = Some ''subtitles'')
      | _ \<Rightarrow> False)"

definition checkMedia ::
  "int \<Rightarrow> string \<Rightarrow> (string \<times> string) list \<Rightarrow> node list \<Rightarrow> violation list" where
  "checkMedia ln tagName attrs children =
     (if tagName = ''video'' \<or> tagName = ''audio'' then
        (if attr attrs ''autoplay'' \<noteq> None \<and> \<not> truthy (attr attrs ''muted'')
            \<and> \<not> truthy (attr attrs ''controls'')
         then [mk ''autoplay-media'' ''error'' ln ''Autoplaying media must be muted or have controls'']
         else [])
        @ (if list_ex isCaptionTrack children then []
           else [mk ''media-no-captions'' ''error'' ln
                   ((if tagName = ''video'' then ''Video'' else ''Audio'')
                    @ '' must have captions or transcript'')])
      else [])"

text \<open>
  The role checks. \<open>for (const prop of required)\<close> runs whenever the lookup is
  truthy: over the list of an own key, and with a \<open>TypeError\<close> over an inherited
  property, which is not iterable.
\<close>

definition checkRole ::
  "int \<Rightarrow> string \<Rightarrow> (string \<times> string) list \<Rightarrow> exn + violation list" where
  \<open>checkRole ln tagName attrs =
     (case attr attrs ''role'' of
        None \<Rightarrow> Inr []
      | Some role \<Rightarrow>
          (if role = [] then Inr []
           else
             (let redundant =
                    (if getProp implicitRoles tagName = Own role
                     then [mk ''redundant-role'' ''warning'' ln
                             (''Redundant role="'' @ role @ ''" on <'' @ tagName @ ''> element'')]
                     else []);
                  invalid =
                    (if role \<in> set validAriaRoles then []
                     else [mk ''invalid-aria-role'' ''error'' ln
                             (''Invalid ARIA role: "'' @ role @ ''"'')])
              in case getProp roleRequiredAria role of
                   Undefined \<Rightarrow> Inr (redundant @ invalid)
                 | Inherited \<Rightarrow> Inl (TypeError ''required is not iterable'')
                 | Own required \<Rightarrow>
                     Inr (redundant @ invalid
                          @ concat (map (\<lambda>prop.
                              if truthy (attr attrs prop) then []
                              else [mk ''missing-aria-required'' ''error'' ln
                                      (''Role "'' @ role @ ''" requires '' @ prop @ '' attribute'')])
                            required)))))\<close>

definition tagChecks ::
  "int \<Rightarrow> string \<Rightarrow> (string \<times> string) list \<Rightarrow> node list \<Rightarrow> violation list" where
  "tagChecks ln tagName attrs children =
     checkImage ln tagName attrs @ checkInput ln tagName attrs
     @ checkButton ln tagName attrs children @ checkLink ln tagName attrs children
     @ checkIframe ln tagName attrs @ checkDivButton ln tagName attrs
     @ checkTabindex ln attrs @ checkHeading ln tagName attrs children
     @ checkTable ln tagName children @ checkMedia ln tagName attrs children"

subsection \<open>The traversal\<close>

text \<open>
  \<open>traverse\<close> walks the tags depth first, carrying \<open>lineNumber\<close> and the violations
  pushed so far. Only nodes of type \<open>tag\<close> are checked and entered. An exception
  leaves the walk at once.
\<close>

definition visitTag ::
  "string \<Rightarrow> string list \<Rightarrow> string \<Rightarrow> (string \<times> string) list \<Rightarrow> node list
    \<Rightarrow> int \<times> violation list \<Rightarrow> exn + (int \<times> violation list)" where
  "visitTag content lines tagName attrs children st =
     (let ln = nextLine content lines tagName (fst st)
      in case checkRole ln tagName attrs of
           Inl e \<Rightarrow> Inl e
         | Inr rs \<Rightarrow> Inr (ln, snd st @ tagChecks ln tagName attrs children @ rs))"

fun traverse ::
  "string \<Rightarrow> string list \<Rightarrow> node list \<Rightarrow> int \<times> violation list
    \<Rightarrow> exn + (int \<times> violation list)" where
  "traverse content lines [] st = Inr st"
| "traverse content lines (Element TagT name attrs children # ns) st =
     (case visitTag content lines (toLowerCase name) attrs children st of
        Inl e \<Rightarrow> Inl e
      | Inr st1 \<Rightarrow>
          (case traverse content lines children st1 of
             Inl e \<Rightarrow> Inl e
           | Inr st2 \<Rightarrow> traverse content lines ns st2))"
| "traverse content lines (_ # ns) st = traverse content lines ns st"

subsection \<open>Checks after the traversal\<close>

text \<open>
  The collectors run after \<open>traverse\<close> has returned and read the same variable
  \<open>lineNumber\<close>, which nothing updates any more: \<open>ln\<close> below is its final value.
  They enter every node that has children.
\<close>

definition visitId :: "int \<Rightarrow> elemType \<Rightarrow> (string \<times> string) list
    \<Rightarrow> string list \<times> violation list \<Rightarrow> string list \<times> violation list" where
  \<open>visitId ln t attrs st =
     (case attr attrs ''id'' of
        None \<Rightarrow> st
      | Some i \<Rightarrow>
          (if t = TagT \<and> i \<noteq> [] then
             (if i \<in> set (fst st)
              then (fst st, snd st @ [mk ''duplicate-id'' ''error'' ln
                                        (''Duplicate ID "'' @ i @ ''" found'')])
              else (fst st @ [i], snd st))
           else st))\<close>

fun collectIds ::
  "int \<Rightarrow> node list \<Rightarrow> string list \<times> violation list \<Rightarrow> string list \<times> violation list" where
  "collectIds ln [] st = st"
| "collectIds ln (Element t name attrs children # ns) st =
     collectIds ln ns (collectIds ln children (visitId ln t attrs st))"
| "collectIds ln (CData children # ns) st = collectIds ln ns (collectIds ln children st)"
| "collectIds ln (_ # ns) st = collectIds ln ns st"

text \<open>A heading as collected: its level (\<open>parseInt\<close> of the second character) and a line.\<close>

fun collectHeadings ::
  "int \<Rightarrow> node list \<Rightarrow> (int option \<times> int) list \<Rightarrow> (int option \<times> int) list" where
  "collectHeadings ln [] hs = hs"
| "collectHeadings ln (Element t name attrs children # ns) hs =
     collectHeadings ln ns
       (collectHeadings ln children
          (if t = TagT \<and> test headingPattern name
           then hs @ [(parseInt (take 1 (drop 1 name)), ln)] else hs))"
| "collectHeadings ln (CData children # ns) hs =
     collectHeadings ln ns (collectHeadings ln children hs)"
| "collectHeadings ln (_ # ns) hs = collectHeadings ln ns hs"

text \<open>A number inside a template literal.\<close>

fun showNat :: "nat \<Rightarrow> string" where
  "showNat n =
     (if n < 10 then [digits ! n] else showNat (n div 10) @ [digits ! (n mod 10)])"

declare showNat.simps [simp del]

definition numberText :: "int option \<Rightarrow> string" where
  "numberText v =
     (case v of
        None \<Rightarrow> ''NaN''
      | Some n \<Rightarrow> (if n < 0 then CHR ''-'' # showNat (nat (- n)) else showNat (nat n)))"

definition levelSkipped :: "int option \<Rightarrow> int option \<Rightarrow> bool" where
  "levelSkipped prevLevel currLevel =
     (case (prevLevel, currLevel) of
        (Some p, Some c) \<Rightarrow> c > p + 1
      | _ \<Rightarrow> False)"

fun headingLoop :: "(int option \<times> int) list \<Rightarrow> violation list" where
  "headingLoop (prevH # currH # hs) =
     (if levelSkipped (fst prevH) (fst currH)
      then [mk ''heading-hierarchy'' ''warning'' (snd currH)
              (''Heading hierarchy skipped from h'' @ numberText (fst prevH)
               @ '' to h'' @ numberText (fst currH))]
      else [])
     @ headingLoop (currH # hs)"
| "headingLoop hs = []"

fun collectRadios ::
  "int \<Rightarrow> node list \<Rightarrow> (string option \<times> int) list \<Rightarrow> (string option \<times> int) list" where
  "collectRadios ln [] rs = rs"
| "collectRadios ln (Element t name attrs children # ns) rs =
     collectRadios ln ns
       (collectRadios ln children
          (if t = TagT \<and> name = ''input'' \<and> attr attrs ''type'' = Some ''radio''
           then rs @ [(attr attrs ''name'', ln)] else rs))"
| "collectRadios ln (CData children # ns) rs =
     collectRadios ln ns (collectRadios ln children rs)"
| "collectRadios ln (_ # ns) rs = collectRadios ln ns rs"

text \<open>\<open>radioGroups\<close>: a map from a name to the lines of its radios, in insertion order.\<close>

definition addRadio ::
  "(string \<times> int list) list \<Rightarrow> string option \<times> int \<Rightarrow> (string \<times> int list) list" where
  "addRadio groups radio =
     (case fst radio of
        None \<Rightarrow> groups
      | Some name \<Rightarrow>
          (if name = [] then groups
           else if name \<in> set (map fst groups)
           then map (\<lambda>g. if fst g = name then (fst g, snd g @ [snd radio]) else g) groups
           else groups @ [(name, [snd radio])]))"

definition radioGroups :: "(string option \<times> int) list \<Rightarrow> (string \<times> int list) list" where
  "radioGroups radioInputs = foldl addRadio [] radioInputs"

definition groupViolation :: "string \<Rightarrow> string \<times> int list \<Rightarrow> violation list" where
  \<open>groupViolation content g =
     (case snd g of
        l0 # l1 # ls \<Rightarrow>
          (if test fieldsetPattern content then []
           else [mk ''radio-missing-fieldset'' ''warning'' l0
                   (''Radio button group "'' @ fst g
                    @ ''" should be wrapped in <fieldset> with <legend>'')])
      | _ \<Rightarrow> [])\<close>

definition radioViolations :: "string \<Rightarrow> int \<Rightarrow> node list \<Rightarrow> violation list" where
  "radioViolations content ln nodes =
     concat (map (groupViolation content) (radioGroups (collectRadios ln nodes [])))"

definition navigationViolations :: "string \<Rightarrow> string list \<Rightarrow> violation list" where
  "navigationViolations content lines =
     (case search navPattern [] content of
        None \<Rightarrow> []
      | Some m \<Rightarrow>
          (if test navElementPattern content then []
           else [mk ''non-semantic-navigation'' ''warning''
                   (getLineNumber lines (indexOf content (matchText m) 0))
                   ''Multiple navigation links should be wrapped in <nav> element'']))"

definition outlineViolations :: "string \<Rightarrow> string list \<Rightarrow> violation list" where
  "outlineViolations content lines =
     map (\<lambda>m. mk ''focus-outline-removed'' ''error'' (getLineNumber lines (matchIndex m))
                ''Do not remove focus outlines without providing custom visible focus styles'')
       (execAll outlineNoneRegex [] content)"

subsection \<open>analyzeHTML\<close>

text \<open>
  The handler's callback, given the tree: the traversal from line 1 with the
  violations found on the raw text, then the checks after it.
\<close>

definition domChecks ::
  "string \<Rightarrow> string list \<Rightarrow> node list \<Rightarrow> violation list \<Rightarrow> exn + violation list" where
  "domChecks content lines nodes vs =
     (case traverse content lines nodes (1, vs) of
        Inl e \<Rightarrow> Inl e
      | Inr st \<Rightarrow>
          Inr (snd (collectIds (fst st) nodes ([], snd st))
               @ headingLoop (collectHeadings (fst st) nodes [])
               @ radioViolations content (fst st) nodes
               @ navigationViolations content lines))"

text \<open>
  \<open>analyzeHTML\<close> takes the markup parser as a function from the text to the tree
  its handler receives, or to the error it receives instead. The result is what
  the promise settles to, with the lines written to the console.
\<close>

definition analyzeHTML ::
  "(string \<Rightarrow> string + node list) \<Rightarrow> string \<Rightarrow> (exn + violation list) \<times> string list" where
  "analyzeHTML parser content =
     (let lines = splitLines content;
          vs = documentChecks content lines
      in case parser content of
           Inl err \<Rightarrow>
             (Inr (vs @ outlineViolations content lines), [''HTML parsing error: '' @ err])
         | Inr nodes \<Rightarrow>
             (case domChecks content lines nodes vs of
                Inl e \<Rightarrow> (Inl e, [])
              | Inr vs' \<Rightarrow> (Inr (vs' @ outlineViolations content lines), [])))"

section \<open>The dispatcher (hybrid-analyzer.js)\<close>

subsection \<open>The tables of the templating delegate\<close>

text \<open>
  Characters beyond Latin-1 in the remediation texts are written as their UTF-8 bytes;
  nothing computes on these texts.
\<close>

definition ruleToWCAG :: "(string \<times> string list) list" where
  \<open>ruleToWCAG =
     [(''jsx-a11y/alt-text'', [''1.1.1'']),
      (''jsx-a11y/anchor-has-content'', [''2.4.4'']),
      (''jsx-a11y/anchor-is-valid'', [''2.4.4'']),
      (''jsx-a11y/aria-activedescendant-has-tabindex'', [''4.1.2'']),
      (''jsx-a11y/aria-props'', [''4.1.2'']),
      (''jsx-a11y/aria-proptypes'', [''4.1.2'']),
      (''jsx-a11y/aria-role'', [''4.1.2'']),
      (''jsx-a11y/aria-unsupported-elements'', [''4.1.2'']),
      (''jsx-a11y/autocomplete-valid'', [''1.3.5'']),
      (''jsx-a11y/click-events-have-key-events'', [''2.1.1'']),
      (''jsx-a11y/control-has-associated-label'', [''4.1.2'']),
      (''jsx-a11y/heading-has-content'', [''2.4.6'']),
      (''jsx-a11y/html-has-lang'', [''3.1.1'']),
      (''jsx-a11y/iframe-has-title'', [''4.1.2'']),
      (''jsx-a11y/img-redundant-alt'', [''1.1.1'']),
      (''jsx-a11y/interactive-supports-focus'', [''2.1.1'']),
      (''jsx-a11y/label-has-associated-control'', [''3.3.2'']),
      (''jsx-a11y/media-has-caption'', [''1.2.2'']),
      (''jsx-a11y/mouse-events-have-key-events'', [''2.1.1'']),
      (''jsx-a11y/no-access-key'', [''2.4.1'']),
      (''jsx-a11y/no-autofocus'', [''2.4.3'']),
      (''jsx-a11y/no-distracting-elements'', [''2.2.2'']),
      (''jsx-a11y/no-interactive-element-to-noninteractive-role'', [''4.1.2'']),
      (''jsx-a11y/no-noninteractive-element-interactions'', [''4.1.2'']),
      (''jsx-a11y/no-noninteractive-element-to-interactive-role'', [''4.1.2'']),
      (''jsx-a11y/no-noninteractive-tabindex'', [''2.1.1'']),
      (''jsx-a11y/no-redundant-roles'', [''4.1.2'']),
      (''jsx-a11y/no-static-element-interactions'', [''4.1.2'']),
      (''jsx-a11y/role-has-required-aria-props'', [''4.1.2'']),
      (''jsx-a11y/role-supports-aria-props'', [''4.1.2'']),
      (''jsx-a11y/scope'', [''1.3.1'']),
      (''jsx-a11y/tabindex-no-positive'', [''2.4.3''])]\<close>

definition fixDescriptions :: "(string \<times> string) list" where
  \<open>fixDescriptions =
     [(''jsx-a11y/alt-text'',
        ''Add alt attribute with meaningful description''),
      (''jsx-a11y/click-events-have-key-events'',
        ''Add keyboard event handlers (onKeyDown)''),
      (''jsx-a11y/no-static-element-interactions'',
        ''Replace with semantic button or add role and keyboard support''),
      (''jsx-a11y/label-has-associated-control'',
        ''Associate label with form control''),
      (''jsx-a11y/interactive-supports-focus'',
        ''Make interactive element keyboard focusable''),
      (''jsx-a11y/aria-role'',
        ''Use valid ARIA role from specification''),
      (''jsx-a11y/media-has-caption'',
        ''Add captions to video/audio elements''),
      (''jsx-a11y/no-autofocus'',
        ''Remove autoFocus attribute''),
      (''jsx-a11y/tabindex-no-positive'',
        ''Remove positive tabIndex values''),
      (''jsx-a11y/aria-props'',
        ''Fix ARIA property name''),
      (''jsx-a11y/role-has-required-aria-props'',
        ''Add required ARIA properties for this role''),
      (''jsx-a11y/heading-has-content'',
        ''Add text content to heading element''),
      (''jsx-a11y/iframe-has-title'',
        ''Add title attribute to iframe''),
      (''jsx-a11y/no-distracting-elements'',
        ''Remove <marquee> or <blink> elements''),
      (''jsx-a11y/anchor-has-content'',
        ''Add text content or aria-label to link''),
      (''jsx-a11y/anchor-is-valid'',
        ''Provide valid href or use button element''),
      (''jsx-a11y/control-has-associated-label'',
        ''Add accessible label to form control''),
      (''jsx-a11y/mouse-events-have-key-events'',
        ''Add keyboard equivalents for mouse events''),
      (''jsx-a11y/img-redundant-alt'',
        ''Remove redundant words like "image" or "picture" from alt text''),
      (''jsx-a11y/no-access-key'',
        ''Remove accessKey attribute''),
      (''jsx-a11y/aria-activedescendant-has-tabindex'',
        ''Add tabIndex when using aria-activedescendant''),
      (''jsx-a11y/aria-proptypes'',
        ''Use correct value type for ARIA property''),
      (''jsx-a11y/aria-unsupported-elements'',
        ''Remove ARIA from unsupported elements''),
      (''jsx-a11y/autocomplete-valid'',
        ''Use valid autocomplete value''),
      (''jsx-a11y/html-has-lang'',
        ''Add lang attribute to <html> element''),
      (''jsx-a11y/no-interactive-element-to-noninteractive-role'',
        ''Do not override interactive element semantics''),
      (''jsx-a11y/no-noninteractive-element-interactions'',
        ''Add proper role to non-interactive element with handlers''),
      (''jsx-a11y/no-noninteractive-element-to-interactive-role'',
        ''Use semantic interactive elements instead''),
      (''jsx-a11y/no-noninteractive-tabindex'',
        ''Remove tabIndex from non-interactive elements''),
      (''jsx-a11y/no-redundant-roles'',
        ''Remove redundant role that matches implicit semantics''),
      (''jsx-a11y/role-supports-aria-props'',
        ''Remove ARIA properties not supported by role''),
      (''jsx-a11y/scope'',
        ''Use scope attribute only on <th> elements'')]\<close>

definition fixSuggestionsESLint :: "(string \<times> string list) list" where
  \<open>fixSuggestionsESLint =
     [(''jsx-a11y/alt-text'',
        [''<img src="/logo.png" alt="Company logo" />'',
         ''<img src="/decorative.png" alt="" /> // For decorative images'',
         ''Describe what the image conveys, not just "image of..."'']),
      (''jsx-a11y/click-events-have-key-events'',
        [''<div onClick={handler} onKeyDown={(e) => { if (e.key === "Enter" || e.key === " ") handler(); }} tabIndex={0}>'',
         ''Or better: <button onClick={handler}>Click me</button>'',
         ''Keyboard users need Enter/Space key support'']),
      (''jsx-a11y/no-static-element-interactions'',
        [''Replace: <button onClick={handler}>Click me</button>'',
         ''Or add: <div role="button" tabIndex={0} onClick={handler} onKeyDown={keyHandler}>'',
         ''const keyHandler = (e) => { if (e.key === "Enter" || e.key === " ") handler(); }'']),
      (''jsx-a11y/label-has-associated-control'',
        [''<label htmlFor="email">Email</label><input id="email" type="email" />'',
         ''Or wrap: <label>Email <input type="email" /></label>'',
         ''Or use: <input type="email" aria-label="Email" />'']),
      (''jsx-a11y/interactive-supports-focus'',
        [''<div role="button" tabIndex={0} onClick={handler}>'',
         ''Add tabIndex={0} to make element focusable'',
         ''Consider using <button> instead for better semantics'']),
      (''jsx-a11y/aria-role'',
        [''Valid roles: button, link, menuitem, tab, checkbox, radio, dialog'',
         ''<div role="button" tabIndex={0}>Click me</div>'',
         ''See: https://www.w3.org/TR/wai-aria-1.2/#role_definitions'']),
      (''jsx-a11y/media-has-caption'',
        [''<video controls><track kind="captions" src="captions.vtt" /></video>'',
         ''<audio controls><track kind="captions" src="captions.vtt" /></audio>'',
         ''Always provide captions for accessibility'']),
      (''jsx-a11y/no-autofocus'',
        [''Remove: autoFocus={true}'',
         ''Let users control focus flow naturally'',
         ''Exception: When explicitly needed (e.g., search on page load)'']),
      (''jsx-a11y/tabindex-no-positive'',
        [''Remove: tabIndex={1}, tabIndex={5}, etc.'',
         ''Use: tabIndex={0} for natural tab order'',
         ''Use: tabIndex={-1} for programmatic focus only'']),
      (''jsx-a11y/aria-props'',
        [''Check spelling: aria-labelledby (not aria-labeledby)'',
         ''Valid props: aria-label, aria-describedby, aria-hidden, etc.'',
         ''See: https://www.w3.org/TR/wai-aria-1.2/#state_prop_def'']),
      (''jsx-a11y/role-has-required-aria-props'',
        [''role="checkbox" requires: aria-checked'',
         ''role="slider" requires: aria-valuemin, aria-valuemax, aria-valuenow'',
         ''Check MDN or W3C ARIA spec for role requirements'']),
      (''jsx-a11y/heading-has-content'',
        [''<h1>Page Title</h1>'',
         ''<h2>{dynamicTitle}</h2>'',
         ''Headings must not be empty'']),
      (''jsx-a11y/iframe-has-title'',
        [''<iframe src="..." title="YouTube video player" />'',
         ''<iframe src="..." title="External content from example.com" />'',
         ''Title helps users understand iframe purpose'']),
      (''jsx-a11y/no-distracting-elements'',
        [''Remove: <marquee> and <blink>'',
         ''Use CSS: animation or transition instead'',
         ''Provide controls to pause/stop animations'']),
      (''jsx-a11y/anchor-has-content'',
        [''<a href="/about">About Us</a>'',
         ''<a href="/contact" aria-label="Contact page">'' @ [CHR 0xF0] @ [CHR 0x9F] @ [CHR 0x93] @ [CHR 0xA7] @ ''</a>'',
         ''Links need visible text or aria-label'']),
      (''jsx-a11y/anchor-is-valid'',
        [''<a href="/page">Go to page</a> // Valid navigation'',
         ''<button onClick={handler}>Do action</button> // For actions'',
         ''Avoid: href="#" or href="javascript:void(0)"'']),
      (''jsx-a11y/control-has-associated-label'',
        [''<label htmlFor="name">Name</label><input id="name" />'',
         ''<input aria-label="Search" type="search" />'',
         ''<button aria-label="Close">'' @ [CHR 0xD7] @ ''</button>'']),
      (''jsx-a11y/mouse-events-have-key-events'',
        [''onMouseEnter + onFocus'',
         ''onMouseLeave + onBlur'',
         ''<div onMouseEnter={show} onFocus={show} onMouseLeave={hide} onBlur={hide}>'']),
      (''jsx-a11y/img-redundant-alt'',
        [''Avoid: alt="image of logo" or alt="picture of product"'',
         ''Better: alt="Acme Company logo" or alt="Blue t-shirt product"'',
         ''Screen readers already announce "image"'']),
      (''jsx-a11y/no-access-key'',
        [''Remove: accessKey="s"'',
         ''accessKey conflicts with screen readers and browser shortcuts'',
         ''Use visible keyboard shortcuts instead'']),
      (''jsx-a11y/aria-activedescendant-has-tabindex'',
        [''<div role="combobox" aria-activedescendant={activeId} tabIndex={0}>'',
         ''Element using aria-activedescendant must be focusable'',
         ''Add tabIndex={0} or ensure element is naturally focusable'']),
      (''jsx-a11y/aria-proptypes'',
        [''aria-hidden="true" (not "yes" or 1)'',
         ''aria-checked="true" or "false" (not "checked")'',
         ''aria-expanded="true" or "false" (boolean as string)'']),
      (''jsx-a11y/aria-unsupported-elements'',
        [''Remove ARIA from: <meta>, <html>, <style>, <script>'',
         ''These elements do not support ARIA attributes'',
         ''Use ARIA only on visible, interactive elements'']),
      (''jsx-a11y/autocomplete-valid'',
        [''<input type="email" autoComplete="email" />'',
         ''<input type="tel" autoComplete="tel" />'',
         ''See: https://html.spec.whatwg.org/multipage/form-control-infrastructure.html#autofill'']),
      (''jsx-a11y/html-has-lang'',
        [''<html lang="en">'',
         ''<html lang="es">'',
         ''Helps screen readers use correct pronunciation'']),
      (''jsx-a11y/no-interactive-element-to-noninteractive-role'',
        [''Avoid: <button role="article">'',
         ''Do not override button, a, input, etc. with non-interactive roles'',
         ''Use semantic HTML as intended'']),
      (''jsx-a11y/no-noninteractive-element-interactions'',
        [''<li onClick={handler}> '' @ [CHR 0xE2] @ [CHR 0x86] @ [CHR 0x92] @ '' <li role="button" tabIndex={0} onClick={handler}>'',
         ''Non-interactive elements need role and keyboard support'',
         ''Or use: <button onClick={handler}>Item</button>'']),
      (''jsx-a11y/no-noninteractive-element-to-interactive-role'',
        [''Avoid: <h1 role="button">'',
         ''Use interactive elements: <button>, <a>, <input>'',
         ''Headings, paragraphs should not be interactive'']),
      (''jsx-a11y/no-noninteractive-tabindex'',
        [''Remove: <div tabIndex={0}> (without interactive role)'',
         ''Add: <div role="button" tabIndex={0}>'',
         ''Only focusable elements should have tabIndex'']),
      (''jsx-a11y/no-redundant-roles'',
        [''Remove: <button role="button">'',
         ''Remove: <nav role="navigation">'',
         ''Semantic HTML already has implicit roles'']),
      (''jsx-a11y/role-supports-aria-props'',
        [''Avoid: <div role="button" aria-placeholder="...">'',
         ''Check ARIA spec for role-specific properties'',
         ''Each role supports only certain ARIA attributes'']),
      (''jsx-a11y/scope'',
        [''<th scope="col">Header</th> // For column headers'',
         ''<th scope="row">Label</th> // For row headers'',
         ''Do not use scope on <td> elements''])]\<close>


subsection \<open>Findings and the evaluators the dispatcher calls\<close>

text \<open>
  A finding is an element of the list the dispatcher returns. \<open>n_fix\<close> is \<open>None\<close>
  where the source reads \<open>v.fix[0]\<close> of an empty list; the end position is set on the
  delegate's findings only.
\<close>

record finding =
  n_ruleId :: string
  n_severity :: string
  n_message :: string
  n_description :: string
  n_line :: int
  n_column :: int
  n_endLine :: "int option"
  n_endColumn :: "int option"
  n_wcag :: "string list"
  n_fix :: "string option"
  n_suggestions :: "string list"

text \<open>A message of the third-party linter; \<open>m_ruleId\<close> is \<open>None\<close> for \<open>null\<close>.\<close>

record lintMessage =
  m_ruleId :: "string option"
  m_severity :: int
  m_message :: string
  m_line :: int
  m_column :: int
  m_endLine :: "int option"
  m_endColumn :: "int option"

text \<open>
  What the dispatcher calls and this repository's sources do not hold: the markup
  parser, the stylesheet and script evaluators (css-analyzer.js, js-analyzer.js) and
  the linter (the construction of the engine and \<open>lintText\<close> as one call that yields
  the list of results, each a list of messages). Each may throw.
\<close>

record env =
  htmlParser :: "string \<Rightarrow> string + node list"
  analyzeCSS :: "string \<Rightarrow> string \<Rightarrow> exn + violation list"
  analyzeJS :: "string \<Rightarrow> string \<Rightarrow> exn + violation list"
  lintText :: "string \<Rightarrow> string \<Rightarrow> exn + lintMessage list list"

datatype evaluator =
  PrePass | MarkupEvaluator | StylesheetEvaluator | ScriptEvaluator | TemplatingDelegate

text \<open>
  What a call of the dispatcher does: the value its promise settles to (\<open>Inl\<close> a
  rejection), the lines written to the console, and the evaluators it called, in order.
\<close>

record outcome =
  result :: "exn + finding list"
  console :: "string list"
  invoked :: "evaluator list"

definition exnText :: "exn \<Rightarrow> string" where
  "exnText e = (case e of TypeError m \<Rightarrow> ''TypeError: '' @ m | Thrown m \<Rightarrow> m)"

definition exnMessage :: "exn \<Rightarrow> string" where
  "exnMessage e = (case e of TypeError m \<Rightarrow> m | Thrown m \<Rightarrow> m)"

subsection \<open>path.extname\<close>

text \<open>
  The extension of the last component of a POSIX path: from its last dot to its end,
  and empty when there is no dot, when the dot is the component's first character, and
  for the component \<open>..\<close>.
\<close>

definition lastComponent :: "string \<Rightarrow> string" where
  "lastComponent p =
     rev (takeWhile (\<lambda>c. c \<noteq> CHR ''/'') (dropWhile (\<lambda>c. c = CHR ''/'') (rev p)))"

definition extname :: "string \<Rightarrow> string" where
  "extname p =
     (let base = lastComponent p;
          ext = CHR ''.'' # rev (takeWhile (\<lambda>c. c \<noteq> CHR ''.'') (rev base))
      in if CHR ''.'' \<notin> set base then []
         else if length ext = length base then []
         else if base = ''..'' then []
         else ext)"

subsection \<open>The templating delegate\<close>

definition isA11yMessage :: "lintMessage \<Rightarrow> bool" where
  "isA11yMessage msg =
     (case m_ruleId msg of
        None \<Rightarrow> False
      | Some r \<Rightarrow> r \<noteq> [] \<and> startsWith r ''jsx-a11y/'')"

definition toFinding :: "lintMessage \<Rightarrow> finding" where
  "toFinding msg =
     (let r = (case m_ruleId msg of None \<Rightarrow> [] | Some r \<Rightarrow> r)
      in \<lparr>n_ruleId = r,
          n_severity = (if m_severity msg = 2 then ''error'' else ''warning''),
          n_message = m_message msg,
          n_description = m_message msg,
          n_line = m_line msg,
          n_column = m_column msg,
          n_endLine = m_endLine msg,
          n_endColumn = m_endColumn msg,
          n_wcag = (case map_of ruleToWCAG r of None \<Rightarrow> [] | Some w \<Rightarrow> w),
          n_fix = Some (case map_of fixDescriptions r of
                          None \<Rightarrow> ''Review WCAG 2.2 documentation''
                        | Some d \<Rightarrow> d),
          n_suggestions =
            (case map_of fixSuggestionsESLint r of
               None \<Rightarrow> [''Review WCAG 2.2 documentation'',
                         ''Consult accessibility team for guidance'']
             | Some l \<Rightarrow> l)\<rparr>)"

text \<open>\<open>analyzeFileWithESLint\<close>: everything runs inside \<open>try\<close>; the handler logs and returns \<open>[]\<close>.\<close>

definition analyzeFileWithESLint :: "env \<Rightarrow> string \<Rightarrow> string \<Rightarrow> outcome" where
  "analyzeFileWithESLint e content filePath =
     (case lintText e content filePath of
        Inl err \<Rightarrow>
          \<lparr>result = Inr [],
           console = [''ESLint analysis error: '' @ exnText err],
           invoked = [TemplatingDelegate]\<rparr>
      | Inr results \<Rightarrow>
          \<lparr>result = Inr (map toFinding
                      (filter isA11yMessage (case results of [] \<Rightarrow> [] | r # _ \<Rightarrow> r))),
           console = [],
           invoked = [TemplatingDelegate]\<rparr>)"

subsection \<open>analyzeFileHybrid\<close>

text \<open>The mapping the three other branches apply to each violation.\<close>

definition normalize :: "violation \<Rightarrow> finding" where
  "normalize v =
     \<lparr>n_ruleId = ruleId v,
      n_severity = severity v,
      n_message = message v,
      n_description = message v,
      n_line = line v,
      n_column = column v,
      n_endLine = None,
      n_endColumn = None,
      n_wcag = (case wcag v of None \<Rightarrow> [] | Some w \<Rightarrow> w),
      n_fix = (case vfix v of
                 None \<Rightarrow> Some ''Review WCAG 2.2 documentation''
               | Some f \<Rightarrow> (case f of [] \<Rightarrow> None | x # _ \<Rightarrow> Some x)),
      n_suggestions = (case vfix v of
                         None \<Rightarrow> [''Review WCAG 2.2 documentation'']
                       | Some f \<Rightarrow> f)\<rparr>"

definition reactImportPattern :: regex where
  "reactImportPattern =
     cat [strI ''import'', Plus space, Star True dot, Plus space, strI ''from'', Plus space,
          quote, strI ''react'', quote]"

definition jsxReturnPattern :: regex where
  "jsxReturnPattern =
     cat [str ''return'', Star True space, Opt (lit CHR ''(''), Star True space,
          lit CHR ''<'', Chr upperAZ]"

definition jsxArrowPattern :: regex where
  "jsxArrowPattern = cat [str ''=>'', Star True space, lit CHR ''<'', Chr upperAZ]"

definition hasReactImport :: "string \<Rightarrow> bool" where
  "hasReactImport content = test reactImportPattern content"

definition hasJSXElement :: "string \<Rightarrow> bool" where
  "hasJSXElement content = (test jsxReturnPattern content \<or> test jsxArrowPattern content)"

definition analyzed :: "evaluator \<Rightarrow> exn + violation list \<Rightarrow> string list \<Rightarrow> outcome" where
  "analyzed ev r log =
     \<lparr>result = (case r of Inl err \<Rightarrow> Inl err | Inr violations \<Rightarrow> Inr (map normalize violations)),
      console = log,
      invoked = [ev]\<rparr>"

definition analyzeFileHybrid :: "env \<Rightarrow> string \<Rightarrow> string \<Rightarrow> outcome" where
  "analyzeFileHybrid e content filePath =
     (let ext = toLowerCase (extname filePath)
      in if ext = ''.html'' \<or> ext = ''.htm'' then
           (case analyzeHTML (htmlParser e) content of
              (r, log) \<Rightarrow> analyzed MarkupEvaluator r log)
         else if ext = ''.css'' \<or> ext = ''.scss'' then
           analyzed StylesheetEvaluator (analyzeCSS e content filePath) []
         else if ext = ''.js'' \<or> ext = ''.ts'' then
           (if hasReactImport content \<or> hasJSXElement content
            then analyzeFileWithESLint e content filePath
            else analyzed ScriptEvaluator (analyzeJS e content filePath) [])
         else analyzeFileWithESLint e content filePath)"

section \<open>The batch tool (mcp-server.js)\<close>

record fileSummary =
  fileTotalViolations :: nat
  fileErrors :: nat
  fileWarnings :: nat

text \<open>An entry of \<open>results\<close>: with a summary, or with the message of the caught error.\<close>

record fileResult =
  r_filePath :: string
  r_error :: "string option"
  r_violations :: "finding list"
  r_summary :: "fileSummary option"

record overallSummary =
  filesChecked :: nat
  filesWithViolations :: nat
  totalViolations :: nat
  totalErrors :: nat
  totalWarnings :: nat

definition countSeverity :: "string \<Rightarrow> finding list \<Rightarrow> nat" where
  "countSeverity sev vs = length (filter (\<lambda>v. n_severity v = sev) vs)"

definition checkFile :: "env \<Rightarrow> string \<times> string \<Rightarrow> fileResult" where
  "checkFile e file =
     (case result (analyzeFileHybrid e (snd file) (fst file)) of
        Inr vs \<Rightarrow>
          \<lparr>r_filePath = fst file, r_error = None, r_violations = vs,
           r_summary = Some \<lparr>fileTotalViolations = length vs,
                           fileErrors = countSeverity ''error'' vs,
                           fileWarnings = countSeverity ''warning'' vs\<rparr>\<rparr>
      | Inl err \<Rightarrow>
          \<lparr>r_filePath = fst file, r_error = Some (exnMessage err), r_violations = [],
           r_summary = None\<rparr>)"

text \<open>\<open>results.reduce((sum, r) => sum + (r.summary?.field || 0), 0)\<close>.\<close>

definition sumOver :: "(fileSummary \<Rightarrow> nat) \<Rightarrow> fileResult list \<Rightarrow> nat" where
  "sumOver field results =
     foldl (\<lambda>sum r. sum + (case r_summary r of None \<Rightarrow> 0 | Some s \<Rightarrow> field s)) 0 results"

definition summarize :: "nat \<Rightarrow> fileResult list \<Rightarrow> overallSummary" where
  "summarize n results =
     \<lparr>filesChecked = n,
      filesWithViolations = length (filter (\<lambda>r. r_violations r \<noteq> []) results),
      totalViolations = sumOver fileTotalViolations results,
      totalErrors = sumOver fileErrors results,
      totalWarnings = sumOver fileWarnings results\<rparr>"

text \<open>The tool's answer: the per-file results and the overall summary (files are \<open>(path, content)\<close>).\<close>

definition handleCheckAccessibilityBatch ::
  "env \<Rightarrow> (string \<times> string) list \<Rightarrow> fileResult list \<times> overallSummary" where
  "handleCheckAccessibilityBatch e files =
     (let results = map (checkFile e) files
      in (results, summarize (length files) results))"

section \<open>Vocabulary of the properties\<close>


text \<open>
  The tags \<open>traverse\<close> visits, in its order, each with the lower-cased name and the
  attributes its checks receive; and the inputs among them that the label check
  concerns and that carry none of the three attributes it accepts.
\<close>

fun visitedTags :: "node list \<Rightarrow> (string \<times> (string \<times> string) list) list" where
  "visitedTags [] = []"
| "visitedTags (Element TagT name attrs children # ns) =
     (toLowerCase name, attrs) # visitedTags children @ visitedTags ns"
| "visitedTags (_ # ns) = visitedTags ns"

definition unlabeledInput :: "string \<times> (string \<times> string) list \<Rightarrow> bool" where
  "unlabeledInput t = (isCheckedInput (fst t) (snd t) \<and> \<not> inputHasLabel (snd t))"

definition missingLabel :: "violation \<Rightarrow> bool" where
  "missingLabel v = (ruleId v = ''form-input-missing-label'')"

text \<open>The findings of one file of a batch: the dispatcher's list, or none when it throws.\<close>

definition found :: "env \<Rightarrow> string \<times> string \<Rightarrow> finding list" where
  "found e file =
     (case result (analyzeFileHybrid e (snd file) (fst file)) of
        Inr vs \<Rightarrow> vs
      | Inl err \<Rightarrow> [])"

text \<open>
  What is compared of an outcome and of a list of violations: rule, severity and line
  of each element, and the evaluators called.
\<close>

definition digestV :: "exn + violation list \<Rightarrow> exn + (string \<times> string \<times> int) list" where
  "digestV r = map_sum id (map (\<lambda>v. (ruleId v, severity v, line v))) r"

definition digest ::
  "outcome \<Rightarrow> (exn + (string \<times> string \<times> int) list) \<times> evaluator list" where
  "digest out =
     (map_sum id (map (\<lambda>f. (n_ruleId f, n_severity f, n_line f))) (result out), invoked out)"

text \<open>A pattern is consuming when each of its matches takes at least one character.\<close>

definition consuming :: "regex \<Rightarrow> bool" where
  "consuming r = (\<forall>st. list_all (\<lambda>st'. length (rest st') < length (rest st)) (run r st))"

text \<open>
  The ids \<open>collectIds\<close> meets, in its order: the non-empty \<open>id\<close> of every element of
  type \<open>tag\<close>; and what it does with one of them.
\<close>

fun allIds :: "node list \<Rightarrow> string list" where
  "allIds [] = []"
| "allIds (Element t name attrs children # ns) =
     (case attr attrs ''id'' of
        None \<Rightarrow> []
      | Some i \<Rightarrow> (if t = TagT \<and> i \<noteq> [] then [i] else []))
     @ allIds children @ allIds ns"
| "allIds (CData children # ns) = allIds children @ allIds ns"
| "allIds (_ # ns) = allIds ns"

definition noteId :: "int \<Rightarrow> string list \<times> violation list \<Rightarrow> string \<Rightarrow> string list \<times> violation list" where
  \<open>noteId ln st i =
     (if i \<in> set (fst st)
      then (fst st, snd st @ [mk ''duplicate-id'' ''error'' ln (''Duplicate ID "'' @ i @ ''" found'')])
      else (fst st @ [i], snd st))\<close>

section \<open>Example inputs\<close>

text \<open>
  An environment whose markup parser answers with the given tree, and one whose
  linter answers with the given messages; the other evaluators find nothing.
\<close>

definition htmlEnv :: "node list \<Rightarrow> env" where
  "htmlEnv tree =
     \<lparr>htmlParser = (\<lambda>c. Inr tree), analyzeCSS = (\<lambda>c p. Inr []),
      analyzeJS = (\<lambda>c p. Inr []), lintText = (\<lambda>c p. Inr [])\<rparr>"

definition lintEnv :: "(string \<Rightarrow> lintMessage list) \<Rightarrow> env" where
  "lintEnv messages =
     \<lparr>htmlParser = (\<lambda>c. Inr []), analyzeCSS = (\<lambda>c p. Inr []),
      analyzeJS = (\<lambda>c p. Inr []), lintText = (\<lambda>c p. Inr [messages c])\<rparr>"

text \<open>An image without \<open>alt\<close>: the input of the repository's first test.\<close>

definition imgDoc :: string where
  \<open>imgDoc = ''<img src="logo.png" />''\<close>

definition imgTree :: "node list" where
  "imgTree = [Element TagT ''img'' [(''src'', ''logo.png'')] []]"

text \<open>A role that names a property every object inherits.\<close>

definition roleDoc :: string where
  \<open>roleDoc = ''<div role="constructor"></div>''\<close>

definition roleTree :: "node list" where
  "roleTree = [Element TagT ''div'' [(''role'', ''constructor'')] []]"

text \<open>The linter's message for an image without \<open>alt\<close>, and for an anchor without a target.\<close>

definition altTextMessage :: lintMessage where
  "altTextMessage =
     \<lparr>m_ruleId = Some ''jsx-a11y/alt-text'', m_severity = 2,
      m_message = ''img elements must have an alt prop, either with meaningful text, or an empty string for decorative images.'',
      m_line = 1, m_column = 1, m_endLine = Some 1, m_endColumn = Some 20\<rparr>"

definition anchorMessage :: lintMessage where
  "anchorMessage =
     \<lparr>m_ruleId = Some ''jsx-a11y/anchor-is-valid'', m_severity = 2,
      m_message = ''The href attribute is required for an anchor to be keyboard accessible.'',
      m_line = 1, m_column = 1, m_endLine = Some 1, m_endColumn = Some 13\<rparr>"

definition jsxImage :: string where
  \<open>jsxImage = ''<img src="a.png" />''\<close>

definition jsxAnchor :: string where
  \<open>jsxAnchor = ''<a>more</a>''\<close>

definition jsxLinter :: "string \<Rightarrow> lintMessage list" where
  "jsxLinter c = (if c = jsxImage then [altTextMessage] else if c = jsxAnchor then [anchorMessage] else [])"

text \<open>Two radio inputs of one name inside a fieldset with a legend.\<close>

definition radioDoc :: string where
  \<open>radioDoc = ''<fieldset><legend>G</legend><input type=radio name=g><input type=radio name=g></fieldset>''\<close>

definition radioTree :: "node list" where
  "radioTree =
     [Element TagT ''fieldset'' []
        [Element TagT ''legend'' [] [Text ''G''],
         Element TagT ''input'' [(''type'', ''radio''), (''name'', ''g'')] [],
         Element TagT ''input'' [(''type'', ''radio''), (''name'', ''g'')] []]]"

text \<open>An input with an \<open>id\<close> in a document that has no label at all, and a bare input.\<close>

definition idDoc :: string where
  \<open>idDoc = ''<input id="q">''\<close>

definition idTree :: "node list" where
  "idTree = [Element TagT ''input'' [(''id'', ''q'')] []]"

definition inputDoc :: string where
  "inputDoc = ''<input>''"

definition inputTree :: "node list" where
  "inputTree = [Element TagT ''input'' [] []]"

definition inputViolations :: "violation list" where
  "inputViolations =
     [mk ''missing-lang'' ''error'' 1 ''The <html> element must have a lang attribute'',
      mk ''title-empty'' ''error'' 1 ''Page must have a non-empty <title> element'',
      mk ''missing-main-landmark'' ''error'' 1 ''Page should have a <main> landmark element'',
      mk ''form-input-missing-label'' ''error'' 1 ''Form input must have an associated label'']"

text \<open>
  Headings of levels 1, 2 and 4 on the lines 1, 2 and 3, followed by a paragraph on
  line 4; and the same with level 3 in place of 4.
\<close>

definition headingDoc :: string where
  "headingDoc =
     ''<h1>a</h1>'' @ [CHR 0x0A] @ '' <h2>b</h2>'' @ [CHR 0x0A] @ '' <h4>c</h4>''
     @ [CHR 0x0A] @ '' <p>d</p>''"

definition headingTree :: "node list" where
  "headingTree =
     [Element TagT ''h1'' [] [Text ''a''], Text [CHR 0x0A, CHR '' ''],
      Element TagT ''h2'' [] [Text ''b''], Text [CHR 0x0A, CHR '' ''],
      Element TagT ''h4'' [] [Text ''c''], Text [CHR 0x0A, CHR '' ''],
      Element TagT ''p'' [] [Text ''d'']]"

text \<open>Two elements with the id \<open>x\<close> on the lines 1 and 2, followed by a paragraph on line 3.\<close>

definition dupDoc :: string where
  \<open>dupDoc =
     ''<div id="x"></div>'' @ [CHR 0x0A] @ '' <span id="x"></span>'' @ [CHR 0x0A]
     @ '' <p>t</p>''\<close>

definition dupTree :: "node list" where
  "dupTree =
     [Element TagT ''div'' [(''id'', ''x'')] [], Text [CHR 0x0A, CHR '' ''],
      Element TagT ''span'' [(''id'', ''x'')] [], Text [CHR 0x0A, CHR '' ''],
      Element TagT ''p'' [] [Text ''t'']]"

text \<open>
  A component whose React import is written over three lines, as in the repository's
  example \<open>AccessibilityViolations.tsx\<close>, and whose root tag is lower-case; the same
  component with the import on one line; and a linter that reports the image without
  \<open>alt\<close> where it stands in each.
\<close>

definition logoBody :: string where
  \<open>logoBody =
     [CHR 0x0A] @ ''export const Logo = () => {'' @ [CHR 0x0A] @ ''  return ('' @ [CHR 0x0A]
     @ ''    <img src="a.png" />'' @ [CHR 0x0A] @ ''  );'' @ [CHR 0x0A] @ ''};''\<close>

definition multilineComponent :: string where
  \<open>multilineComponent =
     ''import React, {'' @ [CHR 0x0A] @ ''  useState'' @ [CHR 0x0A] @ ''} from "react";''
     @ logoBody\<close>

definition onelineComponent :: string where
  \<open>onelineComponent = ''import React, { useState } from "react";'' @ logoBody\<close>

definition logoLinter :: "string \<Rightarrow> lintMessage list" where
  "logoLinter c =
     (if c = multilineComponent
      then [altTextMessage \<lparr>m_line := 6, m_column := 5, m_endLine := Some 6, m_endColumn := Some 24\<rparr>]
      else if c = onelineComponent
      then [altTextMessage \<lparr>m_line := 4, m_column := 5, m_endLine := Some 4, m_endColumn := Some 24\<rparr>]
      else [])"











section \<open>Lemmas\<close>

subsection \<open>Severities\<close>































subsection \<open>Which checks report an input without a label\<close>

lemma ruleId_mk: "ruleId (mk r s l m) = r"
  by (simp add: mk_def)

lemma missingLabel_mk: "missingLabel (mk r s l m) = (r = ''form-input-missing-label'')"
  by (simp add: missingLabel_def ruleId_mk)

lemma ml_checkImage: "filter missingLabel (checkImage ln tagName attrs) = []"
  by (simp add: checkImage_def missingLabel_mk split: option.split)

lemma ml_checkInput:
  "length (filter missingLabel (checkInput ln tagName attrs))
     = (if unlabeledInput (tagName, attrs) then 1 else 0)"
  by (simp add: checkInput_def missingLabel_mk unlabeledInput_def)

lemma ml_checkButton: "filter missingLabel (checkButton ln tagName attrs children) = []"
  by (simp add: checkButton_def missingLabel_mk)

lemma ml_checkLink: "filter missingLabel (checkLink ln tagName attrs children) = []"
  by (simp add: checkLink_def Let_def missingLabel_mk)

lemma ml_checkIframe: "filter missingLabel (checkIframe ln tagName attrs) = []"
  by (simp add: checkIframe_def missingLabel_mk)

lemma ml_checkDivButton: "filter missingLabel (checkDivButton ln tagName attrs) = []"
  by (simp add: checkDivButton_def Let_def missingLabel_mk)

lemma ml_checkTabindex: "filter missingLabel (checkTabindex ln attrs) = []"
  by (simp add: checkTabindex_def missingLabel_mk split: option.split)

lemma ml_checkHeading: "filter missingLabel (checkHeading ln tagName attrs children) = []"
  by (simp add: checkHeading_def missingLabel_mk)

lemma ml_checkTable: "filter missingLabel (checkTable ln tagName children) = []"
  by (simp add: checkTable_def missingLabel_mk)

lemma ml_checkMedia: "filter missingLabel (checkMedia ln tagName attrs children) = []"
  by (simp add: checkMedia_def missingLabel_mk)

lemma ml_tagChecks:
  "length (filter missingLabel (tagChecks ln tagName attrs children))
     = (if unlabeledInput (tagName, attrs) then 1 else 0)"
  by (simp add: tagChecks_def ml_checkImage ml_checkInput ml_checkButton ml_checkLink
        ml_checkIframe ml_checkDivButton ml_checkTabindex ml_checkHeading ml_checkTable
        ml_checkMedia)

lemma ml_checkRole:
  assumes "checkRole ln tagName attrs = Inr rs"
  shows "filter missingLabel rs = []"
  using assms
  by (auto simp: checkRole_def Let_def missingLabel_mk filter_empty_conv
           split: option.splits if_splits property.splits)

lemma ml_visitTag:
  assumes "visitTag content lines tagName attrs children st = Inr st'"
  shows "length (filter missingLabel (snd st'))
           = length (filter missingLabel (snd st))
             + (if unlabeledInput (tagName, attrs) then 1 else 0)"
proof -
  from assms obtain rs where r: "checkRole (nextLine content lines tagName (fst st)) tagName attrs = Inr rs"
    and st': "snd st' = snd st @ tagChecks (nextLine content lines tagName (fst st)) tagName attrs children @ rs"
    by (auto simp: visitTag_def Let_def split: sum.splits)
  show ?thesis
    by (simp add: st' ml_tagChecks ml_checkRole [OF r])
qed

lemma ml_traverse:
  "traverse content lines ns st = Inr st'
    \<Longrightarrow> length (filter missingLabel (snd st'))
          = length (filter missingLabel (snd st))
            + length (filter unlabeledInput (visitedTags ns))"
proof (induction content lines ns st arbitrary: st' rule: traverse.induct)
  case (1 content lines st)
  then show ?case by simp
next
  case (2 content lines name attrs children ns st)
  show ?case
  proof (cases "visitTag content lines (toLowerCase name) attrs children st")
    case (Inl e)
    with "2.prems" show ?thesis by simp
  next
    case v: (Inr st1)
    show ?thesis
    proof (cases "traverse content lines children st1")
      case (Inl e)
      with v "2.prems" show ?thesis by simp
    next
      case c: (Inr st2)
      with v "2.prems" have n: "traverse content lines ns st2 = Inr st'"
        by simp
      show ?thesis
        using ml_visitTag [OF v] "2.IH"(1) [OF v c] "2.IH"(2) [OF v c n]
        by simp
    qed
  qed
qed simp_all

lemma ml_visitId:
  "filter missingLabel (snd (visitId ln t attrs st)) = filter missingLabel (snd st)"
  by (simp add: visitId_def missingLabel_mk split: option.split)

lemma ml_collectIds:
  "filter missingLabel (snd (collectIds ln ns st)) = filter missingLabel (snd st)"
  by (induction ln ns st rule: collectIds.induct) (simp_all add: ml_visitId)

lemma ml_headingLoop: "filter missingLabel (headingLoop hs) = []"
  by (induction hs rule: headingLoop.induct) (simp_all add: missingLabel_mk)

lemma ml_groupViolation: "filter missingLabel (groupViolation content g) = []"
  by (simp add: groupViolation_def missingLabel_mk split: list.split)

lemma ml_radioViolations: "filter missingLabel (radioViolations content ln ns) = []"
  by (simp add: radioViolations_def filter_concat ml_groupViolation comp_def)

lemma ml_navigationViolations: "filter missingLabel (navigationViolations content lines) = []"
  by (simp add: navigationViolations_def missingLabel_mk split: option.split)

lemma ml_outlineViolations: "filter missingLabel (outlineViolations content lines) = []"
  by (simp add: outlineViolations_def filter_map comp_def missingLabel_mk)

lemma ml_documentChecks: "filter missingLabel (documentChecks content lines) = []"
  by (simp add: documentChecks_def marqueeViolations_def filter_map comp_def missingLabel_mk)

lemma ml_domChecks:
  assumes "domChecks content lines ns vs = Inr vs'"
  shows "length (filter missingLabel vs')
           = length (filter missingLabel vs) + length (filter unlabeledInput (visitedTags ns))"
proof -
  from assms obtain st where t: "traverse content lines ns (1, vs) = Inr st"
    and vs': "vs' = snd (collectIds (fst st) ns ([], snd st))
               @ headingLoop (collectHeadings (fst st) ns [])
               @ radioViolations content (fst st) ns
               @ navigationViolations content lines"
    by (auto simp: domChecks_def split: sum.splits)
  show ?thesis
    using ml_traverse [OF t]
    by (simp add: vs' ml_collectIds ml_headingLoop ml_radioViolations ml_navigationViolations)
qed

subsection \<open>The fieldset pattern\<close>

lemma search_never:
  assumes "\<And>st. run r st = []"
  shows "search r b s = None"
  by (induction s arbitrary: b) (simp_all add: assms)

lemma run_cat_suffix_never:
  assumes "rs \<noteq> []" and "\<And>st. run (cat rs) st = []"
  shows "run (cat (ps @ rs)) st = []"
proof (induction ps arbitrary: st)
  case Nil
  then show ?case by (simp add: assms(2))
next
  case (Cons p ps)
  from assms(1) obtain q qs where "ps @ rs = q # qs"
    by (cases "ps @ rs") auto
  with Cons show ?case by simp
qed

lemma strI_name:
  "strI ''{name}''
     = Seq (Chr ''{'') (Seq (Chr ''nN'') (Seq (Chr ''aA'') (Seq (Chr ''mM'')
         (Seq (Chr ''eE'') (Chr ''}'')))))"
  by code_simp

lemma run_end_then_name: "run (cat [Eol, strI ''{name}'', Opt quote]) st = []"
  by (simp add: strI_name step_def)

lemma fieldsetPattern_split:
  "fieldsetPattern
     = cat ([strI ''<fieldset'', Star True (NotChr ''>''), lit CHR ''>'',
             Star False anyChar,
             strI ''<input'', Star True (NotChr ''>''),
             strI ''type='', Opt quote, strI ''radio'', Opt quote,
             Star True (NotChr ''>''),
             strI ''name='', Opt quote]
            @ [Eol, strI ''{name}'', Opt quote])"
  by (simp add: fieldsetPattern_def)

lemma fieldsetPattern_never: "test fieldsetPattern content = False"
proof -
  have "\<And>st. run fieldsetPattern st = []"
    unfolding fieldsetPattern_split
    by (rule run_cat_suffix_never) (simp_all only: run_end_then_name list.distinct not_False_eq_True)
  then show ?thesis
    by (simp add: test_def search_never)
qed

subsection \<open>Batch\<close>

lemma foldl_plus: "foldl (\<lambda>sum r. sum + f r) (a::nat) rs = a + sum_list (map f rs)"
  by (induction rs arbitrary: a) simp_all

lemma sumOver_sum:
  "sumOver field rs = sum_list (map (\<lambda>r. case r_summary r of None \<Rightarrow> 0 | Some s \<Rightarrow> field s) rs)"
  by (simp add: sumOver_def foldl_plus)

lemma violations_checkFile: "r_violations (checkFile e file) = found e file"
  by (simp add: checkFile_def found_def split: sum.split)

lemma filePath_checkFile: "r_filePath (checkFile e file) = fst file"
  by (simp add: checkFile_def split: sum.split)

lemma total_checkFile:
  "(case r_summary (checkFile e file) of None \<Rightarrow> 0 | Some s \<Rightarrow> fileTotalViolations s)
     = length (found e file)"
  by (simp add: checkFile_def found_def split: sum.split)

lemma errors_checkFile:
  "(case r_summary (checkFile e file) of None \<Rightarrow> 0 | Some s \<Rightarrow> fileErrors s)
     = countSeverity ''error'' (found e file)"
  by (simp add: checkFile_def found_def countSeverity_def split: sum.split)

lemma warnings_checkFile:
  "(case r_summary (checkFile e file) of None \<Rightarrow> 0 | Some s \<Rightarrow> fileWarnings s)
     = countSeverity ''warning'' (found e file)"
  by (simp add: checkFile_def found_def countSeverity_def split: sum.split)

subsection \<open>The dispatcher's branches\<close>

lemma prepass_never_invoked: "PrePass \<notin> set (invoked (analyzeFileHybrid e content filePath))"
  by (simp add: analyzeFileHybrid_def Let_def analyzed_def analyzeFileWithESLint_def
        case_prod_beta split: sum.split)

lemma delegate_never_rejects:
  "\<exists>fs. result (analyzeFileWithESLint e content filePath) = Inr fs"
  by (simp add: analyzeFileWithESLint_def split: sum.split)

lemma delegate_failure_logged:
  assumes "lintText e content filePath = Inl err"
  shows "analyzeFileWithESLint e content filePath
           = \<lparr>result = Inr [], console = [''ESLint analysis error: '' @ exnText err],
              invoked = [TemplatingDelegate]\<rparr>"
  using assms by (simp add: analyzeFileWithESLint_def)

lemma stylesheet_failure_propagates:
  assumes "toLowerCase (extname filePath) = ''.css'' \<or> toLowerCase (extname filePath) = ''.scss''"
    and "analyzeCSS e content filePath = Inl err"
  shows "result (analyzeFileHybrid e content filePath) = Inl err"
  using assms by (auto simp: analyzeFileHybrid_def Let_def analyzed_def)

lemma script_failure_propagates:
  assumes "toLowerCase (extname filePath) = ''.js'' \<or> toLowerCase (extname filePath) = ''.ts''"
    and "\<not> hasReactImport content" and "\<not> hasJSXElement content"
    and "analyzeJS e content filePath = Inl err"
  shows "result (analyzeFileHybrid e content filePath) = Inl err"
  using assms by (auto simp: analyzeFileHybrid_def Let_def analyzed_def)

lemma other_extension_goes_to_delegate:
  assumes "toLowerCase (extname filePath) \<notin> set [''.html'', ''.htm'', ''.css'', ''.scss'', ''.js'', ''.ts'']"
  shows "analyzeFileHybrid e content filePath = analyzeFileWithESLint e content filePath"
  using assms by (simp add: analyzeFileHybrid_def Let_def)

subsection \<open>The severities of the dispatcher's findings\<close>






subsection \<open>The lines of the checks after the traversal\<close>

lemma line_mk: "line (mk r s l m) = l"
  by (simp add: mk_def)

lemma collectIds_lines:
  "list_all (\<lambda>v. line v = ln) (snd st)
    \<Longrightarrow> list_all (\<lambda>v. line v = ln) (snd (collectIds ln ns st))"
proof (induction ln ns st rule: collectIds.induct)
  case (2 ln t name attrs children ns st)
  have "list_all (\<lambda>v. line v = ln) (snd (visitId ln t attrs st))"
    using "2.prems" by (simp add: visitId_def line_mk split: option.split)
  then show ?case
    using "2.IH" by simp
qed simp_all

lemma collectHeadings_lines:
  "list_all (\<lambda>h. snd h = ln) hs \<Longrightarrow> list_all (\<lambda>h. snd h = ln) (collectHeadings ln ns hs)"
  by (induction ln ns hs rule: collectHeadings.induct) simp_all

lemma headingLoop_lines:
  "list_all (\<lambda>h. snd h = ln) hs \<Longrightarrow> list_all (\<lambda>v. line v = ln) (headingLoop hs)"
  by (induction hs rule: headingLoop.induct) (simp_all add: line_mk)

lemma post_traversal_lines:
  "list_all (\<lambda>v. line v = ln) (snd (collectIds ln ns ([], [])))
   \<and> list_all (\<lambda>v. line v = ln) (headingLoop (collectHeadings ln ns []))"
  by (simp add: collectIds_lines collectHeadings_lines headingLoop_lines)

lemma headingLoop_1_2_4:
  "map ruleId (headingLoop [(Some 1, a), (Some 2, b), (Some 4, c)]) = [''heading-hierarchy'']
   \<and> map line (headingLoop [(Some 1, a), (Some 2, b), (Some 4, c)]) = [c]"
  by (simp add: levelSkipped_def ruleId_mk line_mk)

lemma headingLoop_1_2_3: "headingLoop [(Some 1, a), (Some 2, b), (Some 3, c)] = []"
  by (simp add: levelSkipped_def)

lemma radio_group_warned_whatever_the_text:
  \<open>groupViolation content (name, l0 # l1 # ls)
     = [mk ''radio-missing-fieldset'' ''warning'' l0
          (''Radio button group "'' @ name @ ''" should be wrapped in <fieldset> with <legend>'')]\<close>
  by (simp add: groupViolation_def fieldsetPattern_never)

subsection \<open>The exec loops move on\<close>

lemma star_shrinks:
  assumes "\<And>st st'. st' \<in> set (f st) \<Longrightarrow> length (rest st') \<le> length (rest st)"
  shows "st' \<in> set (star greedy f n st) \<Longrightarrow> length (rest st') \<le> length (rest st)"
proof (induction n arbitrary: st)
  case 0
  then show ?case by simp
next
  case (Suc n)
  from Suc.prems consider "st' = st"
    | s1 where "s1 \<in> set (f st)" "length (rest s1) < length (rest st)"
        "st' \<in> set (star greedy f n s1)"
    by (auto simp: Let_def split: if_splits)
  then show ?case
  proof cases
    case 1
    then show ?thesis by simp
  next
    case 2
    with Suc.IH [of s1] show ?thesis by simp
  qed
qed

lemma step_consumes:
  "st' \<in> set (step ok st) \<Longrightarrow> length (rest st') < length (rest st)"
  by (cases "rest st") (auto simp: step_def split: if_splits)

lemma run_shrinks:
  "st' \<in> set (run r st) \<Longrightarrow> length (rest st') \<le> length (rest st)"
proof (induction r arbitrary: st st')
  case (Chr cs)
  then show ?case by (auto dest: step_consumes)
next
  case (NotChr cs)
  then show ?case by (auto dest: step_consumes)
next
  case (Seq a b)
  from Seq.prems obtain s1 where "s1 \<in> set (run a st)" "st' \<in> set (run b s1)"
    by auto
  with Seq.IH show ?case by fastforce
next
  case (Alt a b)
  with Alt.IH show ?case by auto
next
  case (Star greedy r)
  from Star.prems have "st' \<in> set (star greedy (run r) (length (rest st)) st)"
    by simp
  then show ?case
    using Star.IH by (rule star_shrinks [rotated])
next
  case (Grp k r)
  then show ?case by (auto simp: capture_def)
qed (auto split: if_splits)

lemma consuming_Chr: "consuming (Chr cs)"
  by (auto simp: consuming_def list_all_iff dest: step_consumes)

lemma consuming_Seq: "consuming a \<Longrightarrow> consuming (Seq a b)"
  by (fastforce simp: consuming_def list_all_iff dest: run_shrinks)

lemma consuming_cat: "consuming r \<Longrightarrow> consuming (cat (r # rs))"
  by (cases rs) (simp_all add: consuming_Seq)

lemma consuming_ci: "consuming (ci c)"
  by (simp add: ci_def consuming_Chr split: option.split)

lemma consuming_strI: "consuming (strI (c # cs))"
  by (simp add: strI_def consuming_cat consuming_ci)

lemma consuming_marqueeRegex: "consuming marqueeRegex"
  by (simp add: marqueeRegex_def lit_def consuming_Seq consuming_Chr)

lemma consuming_outlineNoneRegex: "consuming outlineNoneRegex"
  unfolding outlineNoneRegex_def by (intro consuming_cat consuming_strI)

lemma search_result:
  "search r b s = Some (st, e)
    \<Longrightarrow> e \<in> set (run r st) \<and> length (rest st) \<le> length s"
proof (induction s arbitrary: b)
  case Nil
  then show ?case by (auto split: list.splits)
next
  case (Cons c cs)
  show ?case
  proof (cases "run r \<lparr>seen = b, rest = c # cs, caps = []\<rparr>")
    case Nil
    with Cons.prems have "search r (c # b) cs = Some (st, e)"
      by simp
    from Cons.IH [OF this] show ?thesis by simp
  next
    case (Cons e' es)
    with Cons.prems show ?thesis by auto
  qed
qed

lemma execAll_consuming:
  assumes "consuming r"
  shows "execAll r b s
           = (case search r b s of
                None \<Rightarrow> []
              | Some (st, e) \<Rightarrow> (st, e) # execAll r (seen e) (rest e))"
proof (cases "search r b s")
  case None
  then show ?thesis by (simp add: execAll.simps)
next
  case (Some m)
  obtain st e where m: "m = (st, e)"
    by (cases m)
  from search_result [of r b s st e] Some m
  have "e \<in> set (run r st)" and "length (rest st) \<le> length s"
    by simp_all
  with assms have "length (rest e) < length s"
    by (fastforce simp: consuming_def list_all_iff)
  with Some m show ?thesis
    by (subst execAll.simps) simp
qed

subsection \<open>How many duplicate-id violations\<close>

lemma visitId_noteId:
  "visitId ln t attrs st
     = foldl (noteId ln) st
         (case attr attrs ''id'' of
            None \<Rightarrow> []
          | Some i \<Rightarrow> (if t = TagT \<and> i \<noteq> [] then [i] else []))"
  by (simp add: visitId_def noteId_def split: option.split)

lemma collectIds_foldl: "collectIds ln ns st = foldl (noteId ln) st (allIds ns)"
  by (induction ln ns st rule: collectIds.induct) (simp_all add: visitId_noteId)

lemma foldl_noteId_count:
  "length (snd (foldl (noteId ln) st ids)) + card (set (fst st) \<union> set ids)
     = length (snd st) + length ids + card (set (fst st))"
proof (induction ids arbitrary: st)
  case Nil
  then show ?case by simp
next
  case (Cons i ids)
  show ?case
  proof (cases "i \<in> set (fst st)")
    case True
    then have "set (fst st) \<union> set (i # ids) = set (fst st) \<union> set ids"
      by auto
    with True Cons.IH [of "noteId ln st i"] show ?thesis
      by (simp add: noteId_def)
  next
    case False
    then have "card (set (fst st) \<union> {i}) = Suc (card (set (fst st)))"
      by simp
    with False Cons.IH [of "noteId ln st i"] show ?thesis
      by (simp add: noteId_def Un_commute insert_commute)
  qed
qed

lemma duplicate_id_count:
  "length (snd (collectIds ln ns ([], []))) + card (set (allIds ns)) = length (allIds ns)"
  using foldl_noteId_count [of ln "([], [])" "allIds ns"]
  by (simp add: collectIds_foldl)

subsection \<open>The templating markers on examples\<close>

lemma react_import_examples:
  \<open>hasReactImport ''import React from "react";''
   \<and> hasReactImport ''IMPORT { useState } FROM "React"''
   \<and> \<not> hasReactImport ''import { h } from "preact";''\<close>
  by code_simp

lemma jsx_element_examples:
  "hasJSXElement ''return (<Button />)''
   \<and> hasJSXElement ''return <Button />''
   \<and> hasJSXElement ''() => <Row />''
   \<and> \<not> hasJSXElement ''return (<div />)''
   \<and> \<not> hasJSXElement ''return a < B''"
  by code_simp

lemma multiline_import_has_no_marker:
  "\<not> hasReactImport multilineComponent \<and> \<not> hasJSXElement multilineComponent
   \<and> hasReactImport onelineComponent \<and> \<not> hasJSXElement onelineComponent"
  by code_simp

lemma tag_missing_label_iff:
  "list_ex missingLabel (tagChecks ln tagName attrs children) = unlabeledInput (tagName, attrs)"
proof -
  let ?vs = "tagChecks ln tagName attrs children"
  have "list_ex missingLabel ?vs = (0 < length (filter missingLabel ?vs))"
    unfolding length_greater_0_conv by (simp add: list_ex_iff filter_empty_conv)
  also have "\<dots> = unlabeledInput (tagName, attrs)"
    unfolding ml_tagChecks by simp
  finally show ?thesis .
qed


section \<open>The claims\<close>

text \<open>
  C1. The claim: for every file of a recognized format the dispatcher returns the
  pre-pass output followed by the specialized evaluator's output. On the file
  \<open>test.html\<close> holding an image without \<open>alt\<close> the dispatcher calls the markup
  evaluator alone and returns its four findings and nothing else; the repository's test
  suite expects the pre-pass to report the missing \<open>alt\<close> on this very text.
\<close>

theorem dispatcher_runs_no_prepass:
  "digest (analyzeFileHybrid (htmlEnv imgTree) imgDoc ''test.html'')
     = (Inr [(''missing-lang'', ''error'', 1), (''title-empty'', ''error'', 1),
             (''missing-main-landmark'', ''error'', 1), (''img-missing-alt'', ''error'', 1)],
        [MarkupEvaluator])"
  by code_simp

text \<open>
  C2. The claim: the entry point never throws, whatever the text. On a markup file
  with an element whose role is \<open>constructor\<close> the lookup of the role's required
  properties finds what every object inherits, the loop over it raises a
  \<open>TypeError\<close>, and the dispatcher, which awaits the markup evaluator outside any
  \<open>try\<close>, rejects with it.
\<close>

theorem dispatcher_rejects_inherited_role:
  "digest (analyzeFileHybrid (htmlEnv roleTree) roleDoc ''page.html'')
     = (Inl (TypeError ''required is not iterable''), [MarkupEvaluator])"
  by code_simp

text \<open>
  C3. The claim: a file whose extension is not recognized yields the empty list. The
  last branch of the dispatcher takes every other extension to the templating
  delegate: \<open>notes.txt\<close> is linted, and what the linter reports is returned.
\<close>

theorem dispatcher_lints_unrecognized_extension:
  "digest (analyzeFileHybrid (lintEnv jsxLinter) jsxImage ''notes.txt'')
     = (Inr [(''jsx-a11y/alt-text'', ''error'', 1)], [TemplatingDelegate])"
  by code_simp

text \<open>
  C4. The claim: a radio group wrapped in a fieldset produces no
  radio-missing-fieldset warning. The pattern that looks for the fieldset can match
  no text (lemma \<open>fieldsetPattern_never\<close>), and two radios of one name inside a
  fieldset with a legend are reported.
\<close>

theorem fieldset_group_still_warned:
  "digestV (fst (analyzeHTML (\<lambda>c. Inr radioTree) radioDoc))
     = Inr [(''missing-lang'', ''error'', 1), (''title-empty'', ''error'', 1),
            (''missing-main-landmark'', ''error'', 1),
            (''form-input-missing-label'', ''error'', 1),
            (''form-input-missing-label'', ''error'', 1),
            (''radio-missing-fieldset'', ''warning'', 1)]"
  by code_simp

text \<open>
  C5, as stated: an input that carries an id with no matching label anywhere in the
  document counts as unlabeled. It does not: the document below is one such input and
  nothing else, and no form-input-missing-label violation is among the findings.
\<close>

theorem input_with_id_counts_as_labelled:
  "digestV (fst (analyzeHTML (\<lambda>c. Inr idTree) idDoc))
     = Inr [(''missing-lang'', ''error'', 1), (''title-empty'', ''error'', 1),
            (''missing-main-landmark'', ''error'', 1)]"
  by code_simp

text \<open>
  C5, amended: when the markup evaluator returns, its form-input-missing-label
  violations are as many as the visited inputs, other than hidden, submit and button
  ones, that have no non-empty \<open>aria-label\<close>, \<open>aria-labelledby\<close> or \<open>id\<close>; an input
  with a non-empty id counts as labelled whether or not a label points to it.
\<close>

theorem missing_label_iff_no_label_attribute:
  assumes "parser content = Inr nodes"
    and "fst (analyzeHTML parser content) = Inr vs"
  shows "length (filter (\<lambda>v. ruleId v = ''form-input-missing-label'') vs)
           = length (filter unlabeledInput (visitedTags nodes))"
proof -
  from assms obtain vs' where d: "domChecks content (splitLines content) nodes
        (documentChecks content (splitLines content)) = Inr vs'"
    and vs: "vs = vs' @ outlineViolations content (splitLines content)"
    by (auto simp: analyzeHTML_def Let_def split: sum.splits)
  have "length (filter missingLabel vs) = length (filter unlabeledInput (visitedTags nodes))"
    using ml_domChecks [OF d] by (simp add: vs ml_documentChecks ml_outlineViolations)
  then show ?thesis
    by (simp add: missingLabel_def [abs_def])
qed

theorem missing_label_witness:
  "(\<lambda>c. Inr inputTree) inputDoc = (Inr inputTree :: string + node list)
   \<and> fst (analyzeHTML (\<lambda>c. Inr inputTree) inputDoc) = Inr inputViolations
   \<and> length (filter (\<lambda>v. ruleId v = ''form-input-missing-label'') inputViolations) = 1
   \<and> length (filter unlabeledInput (visitedTags inputTree)) = 1"
proof -
  have h: "fst (analyzeHTML (\<lambda>c. Inr inputTree) inputDoc) = Inr inputViolations"
    by code_simp
  have n: "length (filter unlabeledInput (visitedTags inputTree)) = 1"
    by code_simp
  from missing_label_iff_no_label_attribute [OF refl h] n show ?thesis
    by (simp add: h)
qed

text \<open>
  C6, as stated: the aggregate summary of a batch contains the distinct set of
  standard references triggered. Two batches whose findings refer to different
  criteria have one and the same summary.
\<close>

theorem batch_summary_has_no_references:
  "snd (handleCheckAccessibilityBatch (lintEnv jsxLinter) [(''a.jsx'', jsxImage)])
     = snd (handleCheckAccessibilityBatch (lintEnv jsxLinter) [(''b.jsx'', jsxAnchor)])
   \<and> concat (map n_wcag (found (lintEnv jsxLinter) (''a.jsx'', jsxImage))) = [''1.1.1'']
   \<and> concat (map n_wcag (found (lintEnv jsxLinter) (''b.jsx'', jsxAnchor))) = [''2.4.4'']"
  by code_simp

text \<open>
  C6, amended: a batch yields one result per file, in order, with the file's findings
  (none for a file on which the dispatcher throws), and a summary of five counts: the
  files, the files with findings, the findings, and those of severity error and of
  severity warning.
\<close>

theorem batch_summary_counts:
  "snd (handleCheckAccessibilityBatch e files)
     = \<lparr>filesChecked = length files,
        filesWithViolations = length (filter (\<lambda>f. found e f \<noteq> []) files),
        totalViolations = sum_list (map (\<lambda>f. length (found e f)) files),
        totalErrors = sum_list (map (\<lambda>f. countSeverity ''error'' (found e f)) files),
        totalWarnings = sum_list (map (\<lambda>f. countSeverity ''warning'' (found e f)) files)\<rparr>
   \<and> map r_filePath (fst (handleCheckAccessibilityBatch e files)) = map fst files
   \<and> map r_violations (fst (handleCheckAccessibilityBatch e files)) = map (found e) files"
  by (simp add: handleCheckAccessibilityBatch_def summarize_def sumOver_sum comp_def
        violations_checkFile filePath_checkFile total_checkFile errors_checkFile
        warnings_checkFile filter_map length_filter_map Let_def)

text \<open>
  C7. The claim: the heading-hierarchy violation for headings 1, 2, 4 carries the
  line of the level-4 heading. The violation is found, once, but its line is that of
  the last tag the traversal has looked up: 4, the paragraph's, while the level-4
  heading starts on line 3.
\<close>

theorem heading_violation_line_is_stale:
  "digestV (fst (analyzeHTML (\<lambda>c. Inr headingTree) headingDoc))
     = Inr [(''missing-lang'', ''error'', 1), (''title-empty'', ''error'', 1),
            (''missing-main-landmark'', ''error'', 1),
            (''heading-hierarchy'', ''warning'', 4)]
   \<and> getLineNumber (splitLines headingDoc) (indexOf headingDoc ''<h4'' 0) = 3"
  by code_simp

text \<open>
  C8. The claim: the duplicate-id violation of two elements sharing an id is attached
  to the second occurrence. The violation is found, once, but its line is that of the
  last tag the traversal has looked up: 3, the paragraph's, while the second
  occurrence is on line 2.
\<close>

theorem duplicate_id_line_is_stale:
  \<open>digestV (fst (analyzeHTML (\<lambda>c. Inr dupTree) dupDoc))
     = Inr [(''missing-lang'', ''error'', 1), (''title-empty'', ''error'', 1),
            (''missing-main-landmark'', ''error'', 1),
            (''duplicate-id'', ''error'', 3)]
   \<and> getLineNumber (splitLines dupDoc) (indexOf dupDoc ''<span id="x"'' 0) = 2\<close>
  by code_simp

text \<open>
  C9. The claim: a file with a script extension goes to the templating delegate if and
  only if its text holds a templating marker, an import of the templating runtime
  being one, and to the script evaluator otherwise. The pattern that looks for the
  import cannot pass a line break. A component whose React import is written over
  three lines and whose root tag is lower-case goes, as \<open>Logo.js\<close>, to the script
  evaluator, and the image without \<open>alt\<close> is not reported; with the import on one line,
  or as \<open>Logo.jsx\<close>, the same component goes to the delegate, which reports it.
\<close>

theorem multiline_import_goes_to_script_evaluator:
  "digest (analyzeFileHybrid (lintEnv logoLinter) multilineComponent ''Logo.js'')
     = (Inr [], [ScriptEvaluator])
   \<and> digest (analyzeFileHybrid (lintEnv logoLinter) onelineComponent ''Logo.js'')
     = (Inr [(''jsx-a11y/alt-text'', ''error'', 4)], [TemplatingDelegate])
   \<and> digest (analyzeFileHybrid (lintEnv logoLinter) multilineComponent ''Logo.jsx'')
     = (Inr [(''jsx-a11y/alt-text'', ''error'', 6)], [TemplatingDelegate])"
  by code_simp




end
